theory Spec2Isabelle
  imports Main "HOL-Library.Sublist" "HOL-Library.Word"
begin

section \<open>Data model of the mailer module\<close>

text \<open>
  The types follow the interfaces \<^verbatim>\<open>EmailOptions\<close>, \<^verbatim>\<open>EmailAttachment\<close> and
  \<^verbatim>\<open>EmailTemplate\<close>. An optional field \<^verbatim>\<open>f?: T\<close> is a \<open>T option\<close>, with \<open>None\<close> for
  \<^verbatim>\<open>undefined\<close>. A union \<^verbatim>\<open>string | string[]\<close> is the datatype \<open>recipient\<close>.
\<close>

datatype recipient = Addr string | Addrs "string list"

datatype disposition = Inline | Attachment

datatype content = StringContent string | BufferContent "8 word list"

text \<open>A \<^verbatim>\<open>Readable\<close> stream is an opaque object; only its identity is modelled.\<close>

datatype readable = Readable nat

record EmailOptions =
  opt_to :: recipient
  opt_subject :: string
  opt_content :: string
  opt_html :: "bool option"

record EmailAttachment =
  att_filename :: string
  att_contentType :: string
  att_cid :: "string option"
  att_disposition :: "disposition option"
  att_path :: "string option"
  att_content :: "content option"
  att_stream :: "readable option"
  att_encoding :: "string option"

record EmailTemplate =
  tpl_id :: string
  tpl_subject :: string
  tpl_html :: "string option"
  tpl_text :: "string option"
  tpl_to :: "recipient option"
  tpl_attachments :: "EmailAttachment list"

record Config =
  GMAIL_USER :: string
  GMAIL_APP_PASSWORD :: string
  GMAIL_FROM_NAME :: string

text \<open>The local object \<^verbatim>\<open>processedAttachment\<close> of \<^verbatim>\<open>processAttachments\<close>.\<close>

record ProcessedAttachment =
  pa_filename :: string
  pa_contentType :: string
  pa_cid :: "string option"
  pa_contentDisposition :: "disposition option"
  pa_path :: "string option"
  pa_content :: "content option"
  pa_raw :: "readable option"
  pa_encoding :: "string option"

text \<open>The object handed to \<^verbatim>\<open>transporter.sendMail\<close>.\<close>

record MailOptions =
  mo_from_name :: string
  mo_from_address :: string
  mo_to :: string
  mo_subject :: string
  mo_html :: "string option"
  mo_text :: "string option"
  mo_attachments :: "ProcessedAttachment list option"

text \<open>
  Result objects: \<^verbatim>\<open>{success, messageId?, error?}\<close> of \<^verbatim>\<open>sendEmail\<close>, extended with
  \<^verbatim>\<open>to\<close> by \<^verbatim>\<open>sendBulkEmails\<close> and with \<^verbatim>\<open>templateId\<close> by \<^verbatim>\<open>sendTemplatedEmails\<close>.
\<close>

record SendResult =
  success :: bool
  messageId :: "string option"
  error :: "string option"

record BulkResult = SendResult +
  res_to :: string

record TemplatedResult = BulkResult +
  templateId :: string

text \<open>
  A thrown value is either an \<^verbatim>\<open>Error\<close> instance with its message, or any other value,
  of which only the \<^verbatim>\<open>message\<close> property (when it has one) is observable to the module.
\<close>

datatype thrown = JsError string | NonError "string option"

text \<open>
  What the module reads from its surroundings: the configuration, the environment variable
  \<^verbatim>\<open>ASSETS_DIR\<close>, the working directory, \<^verbatim>\<open>path.resolve\<close>, \<^verbatim>\<open>fs.existsSync\<close> and the
  transport. The transport is a function of its own state \<open>'tr\<close>, so that its answer may
  depend on everything it was handed before; it answers with the \<^verbatim>\<open>messageId\<close> of the
  accepted message or throws.
\<close>

record 'tr Env =
  config :: Config
  ASSETS_DIR :: "string option"
  cwd :: string
  path_resolve :: "string \<Rightarrow> string \<Rightarrow> string"
  existsSync :: "string \<Rightarrow> bool"
  sendMail :: "MailOptions \<Rightarrow> 'tr \<Rightarrow> (thrown + string) \<times> 'tr"

text \<open>What the module changes: the state of the transport and the lines of \<^verbatim>\<open>console.warn\<close>.\<close>

record 'tr World =
  transport :: 'tr
  console :: "string list"

section \<open>JavaScript primitives used by the module\<close>

text \<open>Truthiness of an optional string: \<^verbatim>\<open>undefined\<close> and the empty string are falsy.\<close>

definition truthy :: "string option \<Rightarrow> bool" where
  "truthy v = (case v of None \<Rightarrow> False | Some s \<Rightarrow> s \<noteq> [])"

text \<open>Truthiness of an optional \<^verbatim>\<open>string | string[]\<close>: every array is truthy, also the empty one.\<close>

fun truthy_recipient :: "recipient option \<Rightarrow> bool" where
  "truthy_recipient None = False"
| "truthy_recipient (Some (Addr s)) = (s \<noteq> [])"
| "truthy_recipient (Some (Addrs as)) = True"

text \<open>The non-null assertion \<^verbatim>\<open>v!\<close>; the module applies it under a truthiness guard only.\<close>

definition nonNull :: "string option \<Rightarrow> string" where
  "nonNull v = (case v of None \<Rightarrow> [] | Some s \<Rightarrow> s)"

text \<open>\<^verbatim>\<open>xs[i]\<close>, which is \<^verbatim>\<open>undefined\<close> out of range.\<close>

definition nth_opt :: "'a list \<Rightarrow> nat \<Rightarrow> 'a option" where
  "nth_opt xs i = (if i < length xs then Some (xs ! i) else None)"

text \<open>\<^verbatim>\<open>Array.prototype.join\<close> on an array of strings.\<close>

fun join :: "string \<Rightarrow> string list \<Rightarrow> string" where
  "join sep [] = []"
| "join sep [x] = x"
| "join sep (x # y # ys) = x @ sep @ join sep (y # ys)"

text \<open>The expression \<^verbatim>\<open>Array.isArray(to) ? to.join(', ') : to\<close>, which the module repeats.\<close>

fun formatTo :: "recipient \<Rightarrow> string" where
  "formatTo (Addrs as) = join '', '' as"
| "formatTo (Addr s) = s"

text \<open>A single-quoted word inside a message.\<close>

definition quoted :: "string \<Rightarrow> string" where
  "quoted s = CHR 0x27 # s @ [CHR 0x27]"

text \<open>
  \<^verbatim>\<open>String.prototype.replace\<close> with a global regular expression that matches one literal
  token and has no capture group, and with a replacement string. The replacement is
  expanded at every match (the abstract operation GetSubstitution): \<^verbatim>\<open>$$\<close> is a dollar
  sign, \<^verbatim>\<open>$&\<close> the matched text, \<^verbatim>\<open>$`\<close> the text before the match, \<^verbatim>\<open>$'\<close> the text after
  it; any other character, also a dollar sign followed by a digit or by \<^verbatim>\<open><\<close> when the
  expression has no group, stands for itself.
\<close>

fun getSubstitution :: "string \<Rightarrow> string \<Rightarrow> string \<Rightarrow> string \<Rightarrow> string" where
  "getSubstitution matched preceding following (c # d # r) =
     (if c = CHR ''$'' then
        (if d = CHR ''$'' then CHR ''$'' # getSubstitution matched preceding following r
         else if d = CHR ''&'' then matched @ getSubstitution matched preceding following r
         else if d = CHR ''`'' then preceding @ getSubstitution matched preceding following r
         else if d = CHR 0x27 then following @ getSubstitution matched preceding following r
         else c # getSubstitution matched preceding following (d # r))
      else c # getSubstitution matched preceding following (d # r))"
| "getSubstitution matched preceding following r = r"

definition placeholder :: string where
  "placeholder = ''{{assetsDir}}''"

text \<open>
  \<^verbatim>\<open>path.replace(/\{\{assetsDir\}\}/g, replacement)\<close>: the scan goes from left to right over
  the rest of the string, \<open>preceding\<close> being what it has passed already; matches do not overlap.
\<close>

fun replacePlaceholder :: "string \<Rightarrow> string \<Rightarrow> string \<Rightarrow> string" where
  "replacePlaceholder replacement preceding [] = []"
| "replacePlaceholder replacement preceding (c # cs) =
     (if prefix placeholder (c # cs)
      then getSubstitution placeholder preceding (drop (length placeholder) (c # cs)) replacement
           @ replacePlaceholder replacement (preceding @ placeholder) (drop (length placeholder - 1) cs)
      else c # replacePlaceholder replacement (preceding @ [c]) cs)"

text \<open>
  \<^verbatim>\<open>array.map(async (item) => ...)\<close>: the tasks are started in input order, and every
  task of this module runs without suspending up to its call of the transport, so the
  transport is called in input order. The outcome of a task is \<open>Inr\<close> its value when the
  promise is fulfilled and \<open>Inl\<close> the reason when it is rejected.
\<close>

fun mapAsync :: "('a \<Rightarrow> 'w \<Rightarrow> 'b \<times> 'w) \<Rightarrow> 'a list \<Rightarrow> 'w \<Rightarrow> 'b list \<times> 'w" where
  "mapAsync task [] w = ([], w)"
| "mapAsync task (x # xs) w =
     (case task x w of (r, w1) \<Rightarrow>
        (case mapAsync task xs w1 of (rs, w2) \<Rightarrow> (r # rs, w2)))"

text \<open>
  \<^verbatim>\<open>Promise.allSettled\<close>: one slot per promise, filled when the promise of that index
  settles. The schedule lists the indices of the tasks in the order in which they settle.
  The combined promise resolves once every slot is filled; \<open>None\<close> says that it never does.
\<close>

definition settle :: "'a list \<Rightarrow> 'a option list \<Rightarrow> nat \<Rightarrow> 'a option list" where
  "settle outcomes slots i = (if i < length outcomes then slots[i := Some (outcomes ! i)] else slots)"

definition allSettled :: "nat list \<Rightarrow> 'a list \<Rightarrow> 'a list option" where
  "allSettled schedule outcomes =
     those (foldl (settle outcomes) (replicate (length outcomes) None) schedule)"

section \<open>The class GmailMailer\<close>

subsection \<open>sendEmail\<close>

text \<open>The local object \<^verbatim>\<open>mailOptions\<close> of \<^verbatim>\<open>sendEmail\<close>.\<close>

definition sendEmail_mailOptions :: "'tr Env \<Rightarrow> EmailOptions \<Rightarrow> MailOptions" where
  "sendEmail_mailOptions env options =
     \<lparr> mo_from_name = GMAIL_FROM_NAME (config env),
       mo_from_address = GMAIL_USER (config env),
       mo_to = formatTo (opt_to options),
       mo_subject = opt_subject options,
       mo_html = (if opt_html options = Some True then Some (opt_content options) else None),
       mo_text = (if opt_html options = Some True then None else Some (opt_content options)),
       mo_attachments = None \<rparr>"

text \<open>
  The whole body is inside \<^verbatim>\<open>try\<close>; the \<^verbatim>\<open>catch\<close> clause turns what the transport throws
  into a result. The outcome is \<open>Inr\<close> the returned object, or \<open>Inl\<close> what the function
  would throw to its caller.
\<close>

definition sendEmail :: "'tr Env \<Rightarrow> EmailOptions \<Rightarrow> 'tr World \<Rightarrow> (thrown + SendResult) \<times> 'tr World" where
  "sendEmail env options w =
     (let mailOptions = sendEmail_mailOptions env options
      in case sendMail env mailOptions (transport w) of
           (Inr info_messageId, t) \<Rightarrow>
             (Inr \<lparr> success = True, messageId = Some info_messageId, error = None \<rparr>,
              w\<lparr>transport := t\<rparr>)
         | (Inl err, t) \<Rightarrow>
             (let errorMessage = (case err of JsError msg \<Rightarrow> msg | NonError _ \<Rightarrow> ''unknown error'')
              in (Inr \<lparr> success = False, messageId = None, error = Some errorMessage \<rparr>,
                  w\<lparr>transport := t\<rparr>)))"

subsection \<open>sendBulkEmails\<close>

text \<open>The task of one email: the body of the \<^verbatim>\<open>async (email) => ...\<close> callback.\<close>

definition bulkTask :: "'tr Env \<Rightarrow> EmailOptions \<Rightarrow> 'tr World \<Rightarrow> (thrown + BulkResult) \<times> 'tr World" where
  "bulkTask env email w =
     (case sendEmail env email w of
        (Inl reason, w1) \<Rightarrow> (Inl reason, w1)
      | (Inr result, w1) \<Rightarrow>
          (Inr \<lparr> success = success result, messageId = messageId result, error = error result,
                 res_to = formatTo (opt_to email) \<rparr>, w1))"

text \<open>\<^verbatim>\<open>result.reason?.message || fallback\<close>.\<close>

definition reasonMessage :: "thrown \<Rightarrow> string \<Rightarrow> string" where
  "reasonMessage reason fallback =
     (let message = (case reason of JsError msg \<Rightarrow> Some msg | NonError m \<Rightarrow> m)
      in if truthy message then nonNull message else fallback)"

text \<open>The callback of \<^verbatim>\<open>results.map((result, index) => ...)\<close>.\<close>

definition bulkResult :: "EmailOptions list \<Rightarrow> nat \<times> (thrown + BulkResult) \<Rightarrow> BulkResult" where
  "bulkResult emails = (\<lambda>(index, result).
     case result of
       Inr v \<Rightarrow> v
     | Inl reason \<Rightarrow>
         \<lparr> success = False, messageId = None,
           error = Some (reasonMessage reason ''send failed''),
           res_to = (case map_option opt_to (nth_opt emails index) of
                       Some (Addrs as) \<Rightarrow> join '', '' as
                     | Some (Addr s) \<Rightarrow> (if s \<noteq> [] then s else ''unknown'')
                     | None \<Rightarrow> ''unknown'') \<rparr>)"

definition sendBulkEmails ::
  "'tr Env \<Rightarrow> nat list \<Rightarrow> EmailOptions list \<Rightarrow> 'tr World \<Rightarrow> BulkResult list option \<times> 'tr World" where
  "sendBulkEmails env schedule emails w =
     (case mapAsync (bulkTask env) emails w of (outcomes, w1) \<Rightarrow>
        (map_option (\<lambda>results. map (bulkResult emails) (enumerate 0 results))
           (allSettled schedule outcomes), w1))"

subsection \<open>resolveAttachmentPath\<close>

definition resolveAttachmentPath :: "'tr Env \<Rightarrow> string \<Rightarrow> string" where
  "resolveAttachmentPath env path =
     (let assetsDir = (if truthy (ASSETS_DIR env) then nonNull (ASSETS_DIR env) else ''./src'');
          resolvedPath = replacePlaceholder assetsDir [] path
      in if prefix ''./'' resolvedPath \<or> prefix ''../'' resolvedPath
         then path_resolve env (cwd env) resolvedPath
         else resolvedPath)"

subsection \<open>processAttachments\<close>

text \<open>
  The error of the last branch:
  \<^verbatim>\<open>new Error(`Attachment ${attachment.filename} must have either 'path', 'content', or 'stream'`)\<close>.
\<close>

definition missingSourceError :: "EmailAttachment \<Rightarrow> thrown" where
  "missingSourceError attachment =
     JsError (''Attachment '' @ att_filename attachment @ '' must have either ''
              @ quoted ''path'' @ '', '' @ quoted ''content'' @ '', or '' @ quoted ''stream'')"

text \<open>The callback of \<^verbatim>\<open>attachments.map((attachment) => ...)\<close>.\<close>

definition processAttachment ::
  "'tr Env \<Rightarrow> EmailAttachment \<Rightarrow> 'tr World \<Rightarrow> (thrown + ProcessedAttachment) \<times> 'tr World" where
  "processAttachment env attachment w =
     (let processedAttachment =
            \<lparr> pa_filename = att_filename attachment,
              pa_contentType = att_contentType attachment,
              pa_cid = None, pa_contentDisposition = None, pa_path = None,
              pa_content = None, pa_raw = None, pa_encoding = None \<rparr>;
          source =
            (if truthy (att_path attachment) then
               (let resolvedPath = resolveAttachmentPath env (nonNull (att_path attachment));
                    w1 = (if \<not> existsSync env resolvedPath
                          then w\<lparr>console := console w
                                 @ [''Warning: Attachment file not found: '' @ resolvedPath]\<rparr>
                          else w)
                in (Inr (processedAttachment\<lparr>pa_path := Some resolvedPath\<rparr>), w1))
             else if att_content attachment \<noteq> None then
               (Inr (processedAttachment
                      \<lparr>pa_content := att_content attachment,
                       pa_encoding := (if truthy (att_encoding attachment)
                                       then att_encoding attachment else None)\<rparr>), w)
             else if att_stream attachment \<noteq> None then
               (Inr (processedAttachment\<lparr>pa_raw := att_stream attachment\<rparr>), w)
             else (Inl (missingSourceError attachment), w))
      in case source of
           (Inl err, w1) \<Rightarrow> (Inl err, w1)
         | (Inr p, w1) \<Rightarrow>
             (let p1 = (if truthy (att_cid attachment) then p\<lparr>pa_cid := att_cid attachment\<rparr> else p);
                  p2 = (if att_disposition attachment \<noteq> None
                        then p1\<lparr>pa_contentDisposition := att_disposition attachment\<rparr> else p1)
              in (Inr p2, w1)))"

text \<open>\<^verbatim>\<open>attachments.map\<close> with a callback that may throw: the first throw ends the map.\<close>

fun processAttachments ::
  "'tr Env \<Rightarrow> EmailAttachment list \<Rightarrow> 'tr World \<Rightarrow> (thrown + ProcessedAttachment list) \<times> 'tr World" where
  "processAttachments env [] w = (Inr [], w)"
| "processAttachments env (attachment # rest) w =
     (case processAttachment env attachment w of
        (Inl err, w1) \<Rightarrow> (Inl err, w1)
      | (Inr p, w1) \<Rightarrow>
          (case processAttachments env rest w1 of
             (Inl err, w2) \<Rightarrow> (Inl err, w2)
           | (Inr ps, w2) \<Rightarrow> (Inr (p # ps), w2)))"

subsection \<open>sendTemplatedEmails\<close>

text \<open>\<^verbatim>\<open>template.to || defaultTo\<close>.\<close>

definition recipientOr :: "recipient option \<Rightarrow> recipient option \<Rightarrow> recipient option" where
  "recipientOr to defaultTo = (if truthy_recipient to then to else defaultTo)"

text \<open>
  The local object \<^verbatim>\<open>mailOptions\<close> of the template callback, after the \<^verbatim>\<open>if (hasHtml)\<close>
  statement has set the body.
\<close>

definition template_mailOptions ::
  "'tr Env \<Rightarrow> recipient \<Rightarrow> EmailTemplate \<Rightarrow> ProcessedAttachment list \<Rightarrow> MailOptions" where
  "template_mailOptions env to template processedAttachments =
     (let hasHtml = truthy (tpl_html template);
          hasText = truthy (tpl_text template);
          mailOptions =
            \<lparr> mo_from_name = GMAIL_FROM_NAME (config env),
              mo_from_address = GMAIL_USER (config env),
              mo_to = formatTo to,
              mo_subject = tpl_subject template,
              mo_html = None, mo_text = None,
              mo_attachments = Some processedAttachments \<rparr>
      in if hasHtml
         then (let m1 = mailOptions\<lparr>mo_html := tpl_html template\<rparr>
               in if hasText then m1\<lparr>mo_text := tpl_text template\<rparr> else m1)
         else mailOptions\<lparr>mo_text := tpl_text template\<rparr>)"

text \<open>
  The two errors the template callback throws itself:
  \<^verbatim>\<open>new Error(`Template ${template.id} has no recipient specified`)\<close> and
  \<^verbatim>\<open>new Error(`Template ${template.id} has no content (html or text)`)\<close>.
\<close>

definition noRecipientError :: "EmailTemplate \<Rightarrow> thrown" where
  "noRecipientError template =
     JsError (''Template '' @ tpl_id template @ '' has no recipient specified'')"

definition noContentError :: "EmailTemplate \<Rightarrow> thrown" where
  "noContentError template =
     JsError (''Template '' @ tpl_id template @ '' has no content (html or text)'')"

text \<open>The task of one template: the body of the \<^verbatim>\<open>async (template) => ...\<close> callback.\<close>

definition templateTask ::
  "'tr Env \<Rightarrow> recipient option \<Rightarrow> EmailTemplate \<Rightarrow> 'tr World \<Rightarrow> (thrown + TemplatedResult) \<times> 'tr World" where
  "templateTask env defaultTo template w =
     (case recipientOr (tpl_to template) defaultTo of
        None \<Rightarrow> (Inl (noRecipientError template), w)
      | Some to \<Rightarrow>
          if \<not> truthy_recipient (Some to)
          then (Inl (noRecipientError template), w)
          else
            (let hasHtml = truthy (tpl_html template);
                 hasText = truthy (tpl_text template);
                 content = (if hasHtml then nonNull (tpl_html template)
                            else (if hasText then nonNull (tpl_text template) else []))
             in if content = []
                then (Inl (noContentError template), w)
                else
                  (case processAttachments env (tpl_attachments template) w of
                     (Inl err, w1) \<Rightarrow> (Inl err, w1)
                   | (Inr processedAttachments, w1) \<Rightarrow>
                       (let mailOptions = template_mailOptions env to template processedAttachments
                        in case sendMail env mailOptions (transport w1) of
                             (Inl err, t) \<Rightarrow> (Inl err, w1\<lparr>transport := t\<rparr>)
                           | (Inr info_messageId, t) \<Rightarrow>
                               (Inr \<lparr> success = True, messageId = Some info_messageId,
                                      error = None, res_to = formatTo to,
                                      templateId = tpl_id template \<rparr>,
                                w1\<lparr>transport := t\<rparr>)))))"

text \<open>The callback of \<^verbatim>\<open>results.map((result, index) => ...)\<close>.\<close>

definition templatedResult ::
  "EmailTemplate list \<Rightarrow> recipient option \<Rightarrow> nat \<times> (thrown + TemplatedResult) \<Rightarrow> TemplatedResult" where
  "templatedResult templates defaultTo = (\<lambda>(index, result).
     case result of
       Inr v \<Rightarrow> v
     | Inl reason \<Rightarrow>
         (let template = nth_opt templates index
          in \<lparr> success = False, messageId = None,
               error = Some (reasonMessage reason ''send failed''),
               res_to = (let recipient = recipientOr (Option.bind template tpl_to) defaultTo
                         in case recipient of
                              Some (Addrs as) \<Rightarrow> join '', '' as
                            | Some (Addr s) \<Rightarrow> (if s \<noteq> [] then s else ''unknown'')
                            | None \<Rightarrow> ''unknown''),
               templateId = (if truthy (map_option tpl_id template)
                             then nonNull (map_option tpl_id template) else ''unknown'') \<rparr>))"

definition sendTemplatedEmails ::
  "'tr Env \<Rightarrow> nat list \<Rightarrow> EmailTemplate list \<Rightarrow> recipient option \<Rightarrow> 'tr World
     \<Rightarrow> TemplatedResult list option \<times> 'tr World" where
  "sendTemplatedEmails env schedule templates defaultTo w =
     (case mapAsync (templateTask env defaultTo) templates w of (outcomes, w1) \<Rightarrow>
        (map_option (\<lambda>results. map (templatedResult templates defaultTo) (enumerate 0 results))
           (allSettled schedule outcomes), w1))"

section \<open>The recipient rule in the words of the specification\<close>

text \<open>
  The specification determines the recipient as \<^verbatim>\<open>template.to ?? defaultTo\<close>: nullish
  coalescing, which falls back to the default only when \<^verbatim>\<open>template.to\<close> is absent. This
  definition follows those words; \<open>recipientOr\<close> above is what the code computes.
\<close>

definition Spec_recipient :: "recipient option \<Rightarrow> recipient option \<Rightarrow> recipient option" where
  "Spec_recipient to defaultTo = (case to of None \<Rightarrow> defaultTo | Some r \<Rightarrow> Some r)"

section \<open>Example inputs\<close>

text \<open>
  A transport that records what it is handed, rejects the subject \<^verbatim>\<open>reject\<close> and accepts
  everything else; a file system on which no file exists.
\<close>

definition demo_config :: Config where
  "demo_config = \<lparr> GMAIL_USER = ''sender@gmail.com'', GMAIL_APP_PASSWORD = ''secret'',
                    GMAIL_FROM_NAME = ''mailer'' \<rparr>"

definition demo_sendMail :: "MailOptions \<Rightarrow> MailOptions list \<Rightarrow> (thrown + string) \<times> MailOptions list" where
  "demo_sendMail m received =
     (if mo_subject m = ''reject'' then Inl (JsError ''550 rejected'') else Inr ''<id@gmail.com>'',
      received @ [m])"

text \<open>
  A stand-in for \<^verbatim>\<open>path.resolve(dir, p)\<close> on POSIX paths with an absolute \<open>dir\<close>: the
  segments of \<open>p\<close> are followed from \<open>dir\<close> (from the root when \<open>p\<close> is absolute), empty
  segments and \<^verbatim>\<open>.\<close> are dropped and \<^verbatim>\<open>..\<close> goes one directory up.
\<close>

fun split_slash :: "string \<Rightarrow> string list" where
  "split_slash [] = [[]]"
| "split_slash (c # cs) =
     (if c = CHR ''/'' then [] # split_slash cs
      else (case split_slash cs of [] \<Rightarrow> [[c]] | seg # segs \<Rightarrow> (c # seg) # segs))"

fun normalize_segments :: "string list \<Rightarrow> string list \<Rightarrow> string list" where
  "normalize_segments kept [] = rev kept"
| "normalize_segments kept (seg # segs) =
     (if seg = [] \<or> seg = ''.'' then normalize_segments kept segs
      else if seg = ''..'' then normalize_segments (case kept of [] \<Rightarrow> [] | _ # up \<Rightarrow> up) segs
      else normalize_segments (seg # kept) segs)"

definition demo_path_resolve :: "string \<Rightarrow> string \<Rightarrow> string" where
  "demo_path_resolve dir p =
     CHR ''/'' # join ''/''
       (normalize_segments [] (split_slash (if prefix ''/'' p then p else dir @ ''/'' @ p)))"

definition demo_env :: "MailOptions list Env" where
  "demo_env = \<lparr> config = demo_config, ASSETS_DIR = Some ''/tmp/assets'', cwd = ''/app'',
                 path_resolve = demo_path_resolve, existsSync = (\<lambda>p. False),
                 sendMail = demo_sendMail \<rparr>"

definition demo_world :: "MailOptions list World" where
  "demo_world = \<lparr> transport = [], console = [] \<rparr>"

definition demo_attachment :: EmailAttachment where
  "demo_attachment =
     \<lparr> att_filename = ''logo.png'', att_contentType = ''image/png'', att_cid = None,
       att_disposition = None, att_path = None, att_content = None, att_stream = None,
       att_encoding = None \<rparr>"

definition demo_emails :: "EmailOptions list" where
  "demo_emails =
     [\<lparr> opt_to = Addrs [''a@x.com'', ''b@x.com''], opt_subject = ''S'', opt_content = ''C'',
         opt_html = Some False \<rparr>,
      \<lparr> opt_to = Addr ''c@x.com'', opt_subject = ''reject'', opt_content = ''<p>C</p>'',
         opt_html = Some True \<rparr>]"

definition demo_templates :: "EmailTemplate list" where
  "demo_templates =
     [\<lparr> tpl_id = [], tpl_subject = ''first'', tpl_html = Some ''<p>hi</p>'', tpl_text = None,
         tpl_to = None, tpl_attachments = [] \<rparr>,
      \<lparr> tpl_id = ''email-2'', tpl_subject = ''second'', tpl_html = Some ''<p>hi</p>'',
         tpl_text = Some ''hi'', tpl_to = Some (Addr ''a@x.com''),
         tpl_attachments = [demo_attachment\<lparr>att_path := Some ''{{assetsDir}}/logo.png''\<rparr>] \<rparr>,
      \<lparr> tpl_id = ''email-3'', tpl_subject = ''third'', tpl_html = None,
         tpl_text = Some ''hi'', tpl_to = Some (Addrs [''a@x.com'', ''b@x.com'']),
         tpl_attachments = [demo_attachment\<lparr>att_content := Some (StringContent ''data'')\<rparr>] \<rparr>]"

section \<open>Lemmas on the primitives\<close>

lemma mapAsync_Cons:
  "mapAsync task (x # xs) w =
     (fst (task x w) # fst (mapAsync task xs (snd (task x w))),
      snd (mapAsync task xs (snd (task x w))))"
  by (simp split: prod.splits)

lemma mapAsync_length: "length (fst (mapAsync task xs w)) = length xs"
  by (induction xs arbitrary: w) (simp_all add: mapAsync_Cons del: mapAsync.simps(2))

text \<open>The task of index \<open>i\<close> runs on the \<open>i\<close>-th input, in the world the earlier tasks left.\<close>

lemma mapAsync_nth:
  "i < length xs \<Longrightarrow>
   fst (mapAsync task xs w) ! i = fst (task (xs ! i) (snd (mapAsync task (take i xs) w)))"
proof (induction xs arbitrary: w i)
  case Nil
  then show ?case by simp
next
  case (Cons x xs)
  show ?case
  proof (cases i)
    case 0
    then show ?thesis by (simp add: mapAsync_Cons del: mapAsync.simps(2))
  next
    case (Suc j)
    with Cons.prems have j: "j < length xs" by simp
    from Cons.IH [OF j, of "snd (task x w)"] show ?thesis
      using Suc by (simp add: mapAsync_Cons del: mapAsync.simps(2))
  qed
qed

lemma foldl_settle:
  "length slots = length outcomes \<Longrightarrow>
   length (foldl (settle outcomes) slots schedule) = length outcomes \<and>
   (\<forall>i<length outcomes. foldl (settle outcomes) slots schedule ! i =
        (if i \<in> set schedule then Some (outcomes ! i) else slots ! i))"
proof (induction schedule arbitrary: slots)
  case Nil
  then show ?case by simp
next
  case (Cons k schedule)
  have len: "length (settle outcomes slots k) = length outcomes"
    using Cons.prems by (simp add: settle_def)
  from Cons.IH [OF len] show ?case
    using Cons.prems by (auto simp: settle_def nth_list_update)
qed

lemma those_map_Some: "those (map Some xs) = Some xs"
  by (induction xs) simp_all

text \<open>Once every task has settled, in whatever order, the slots hold the outcomes in input order.\<close>

lemma allSettled_complete:
  assumes "{0..<length outcomes} \<subseteq> set schedule"
  shows "allSettled schedule outcomes = Some outcomes"
proof -
  let ?slots = "foldl (settle outcomes) (replicate (length outcomes) None) schedule"
  have fs: "length ?slots = length outcomes"
    "\<forall>i<length outcomes. ?slots ! i =
       (if i \<in> set schedule then Some (outcomes ! i) else replicate (length outcomes) None ! i)"
    using foldl_settle [of "replicate (length outcomes) None" outcomes schedule] by simp_all
  have "?slots = map Some outcomes"
  proof (rule nth_equalityI)
    show "length ?slots = length (map Some outcomes)" using fs(1) by simp
  next
    fix i assume "i < length ?slots"
    then have i: "i < length outcomes" using fs(1) by simp
    then have "i \<in> set schedule" using assms by auto
    then show "?slots ! i = map Some outcomes ! i" using fs(2) i by simp
  qed
  then show ?thesis by (simp add: allSettled_def those_map_Some)
qed

text \<open>Unfolding the model on a concrete input.\<close>

lemmas model_defs =
  sendEmail_def sendEmail_mailOptions_def bulkTask_def bulkResult_def sendBulkEmails_def
  resolveAttachmentPath_def processAttachment_def recipientOr_def template_mailOptions_def
  templateTask_def templatedResult_def sendTemplatedEmails_def reasonMessage_def
  missingSourceError_def noRecipientError_def noContentError_def
  allSettled_def settle_def truthy_def nonNull_def nth_opt_def quoted_def placeholder_def
  demo_config_def demo_sendMail_def demo_path_resolve_def demo_env_def demo_world_def demo_attachment_def
  demo_emails_def demo_templates_def Spec_recipient_def enumerate_eq_zip Let_def

section \<open>sendEmail\<close>

lemma sendEmail_returns: "\<exists>r. fst (sendEmail env options w) = Inr r"
  by (auto simp: sendEmail_def Let_def split: prod.splits sum.splits)

text \<open>
  Claim C2. For every input, \<^verbatim>\<open>sendEmail\<close> throws nothing to its caller: its outcome is
  always a returned result \<open>r\<close>. When the transport accepts the message, \<open>r\<close> is
  \<^verbatim>\<open>{success: true, messageId}\<close> with the transport's message id. When the transport throws
  an \<^verbatim>\<open>Error\<close>, \<open>r\<close> is \<^verbatim>\<open>{success: false, error}\<close> with the error's message unchanged;
  when it throws a value that is not an \<^verbatim>\<open>Error\<close>, the error text is the generic
  \<^verbatim>\<open>unknown error\<close>.
\<close>

theorem sendEmail_never_throws:
  "\<exists>r. fst (sendEmail env options w) = Inr r \<and>
     (case fst (sendMail env (sendEmail_mailOptions env options) (transport w)) of
        Inr info_messageId \<Rightarrow>
          r = \<lparr> success = True, messageId = Some info_messageId, error = None \<rparr>
      | Inl (JsError msg) \<Rightarrow>
          r = \<lparr> success = False, messageId = None, error = Some msg \<rparr>
      | Inl (NonError v) \<Rightarrow>
          r = \<lparr> success = False, messageId = None, error = Some ''unknown error'' \<rparr>)"
  by (auto simp: sendEmail_def Let_def split: prod.splits sum.splits thrown.splits)

text \<open>\<^verbatim>\<open>join\<close> written out: the elements in their order, the separator between neighbours.\<close>

lemma join_concat:
  "join sep xs = (case xs of [] \<Rightarrow> [] | x # rest \<Rightarrow> x @ concat (map (\<lambda>y. sep @ y) rest))"
  by (induction sep xs rule: join.induct) simp_all

text \<open>
  Claim C9. When \<^verbatim>\<open>to\<close> is a list of addresses, the message built for the transport
  carries in \<^verbatim>\<open>to\<close> the first address followed by \<^verbatim>\<open>", "\<close> and the next address for
  each further one, in input order, nothing removed or merged; the body is in the
  \<^verbatim>\<open>html\<close> field when the flag is true and in the \<^verbatim>\<open>text\<close> field otherwise. That message is
  what the transport is handed, once: the transport's state after the call is its state
  after receiving it. For \<^verbatim>\<open>to\<close> \<^verbatim>\<open>["a@x.com","b@x.com"]\<close>, content \<^verbatim>\<open>C\<close> and html false the
  message has \<^verbatim>\<open>to\<close> \<^verbatim>\<open>a@x.com, b@x.com\<close>, \<^verbatim>\<open>text\<close> \<^verbatim>\<open>C\<close> and no \<^verbatim>\<open>html\<close>.
\<close>

theorem sendEmail_transport_message:
  "sendEmail_mailOptions env \<lparr> opt_to = Addrs addresses, opt_subject = subject,
       opt_content = body, opt_html = flag \<rparr> =
     \<lparr> mo_from_name = GMAIL_FROM_NAME (config env), mo_from_address = GMAIL_USER (config env),
       mo_to = (case addresses of [] \<Rightarrow> []
                | a # rest \<Rightarrow> a @ concat (map (\<lambda>b. '', '' @ b) rest)),
       mo_subject = subject,
       mo_html = (if flag = Some True then Some body else None),
       mo_text = (if flag = Some True then None else Some body),
       mo_attachments = None \<rparr>
   \<and> snd (sendEmail env options w) =
       w\<lparr>transport := snd (sendMail env (sendEmail_mailOptions env options) (transport w))\<rparr>
   \<and> sendEmail_mailOptions env \<lparr> opt_to = Addrs [''a@x.com'', ''b@x.com''], opt_subject = ''S'',
         opt_content = ''C'', opt_html = Some False \<rparr> =
       \<lparr> mo_from_name = GMAIL_FROM_NAME (config env), mo_from_address = GMAIL_USER (config env),
         mo_to = ''a@x.com, b@x.com'', mo_subject = ''S'', mo_html = None, mo_text = Some ''C'',
         mo_attachments = None \<rparr>"
proof (intro conjI)
  show "sendEmail_mailOptions env \<lparr> opt_to = Addrs addresses, opt_subject = subject,
       opt_content = body, opt_html = flag \<rparr> =
     \<lparr> mo_from_name = GMAIL_FROM_NAME (config env), mo_from_address = GMAIL_USER (config env),
       mo_to = (case addresses of [] \<Rightarrow> []
                | a # rest \<Rightarrow> a @ concat (map (\<lambda>b. '', '' @ b) rest)),
       mo_subject = subject,
       mo_html = (if flag = Some True then Some body else None),
       mo_text = (if flag = Some True then None else Some body),
       mo_attachments = None \<rparr>"
    using join_concat [of "'', ''" addresses] by (simp add: sendEmail_mailOptions_def)
  show "snd (sendEmail env options w) =
       w\<lparr>transport := snd (sendMail env (sendEmail_mailOptions env options) (transport w))\<rparr>"
    by (auto simp: sendEmail_def Let_def split: prod.splits sum.splits)
  show "sendEmail_mailOptions env \<lparr> opt_to = Addrs [''a@x.com'', ''b@x.com''], opt_subject = ''S'',
         opt_content = ''C'', opt_html = Some False \<rparr> =
       \<lparr> mo_from_name = GMAIL_FROM_NAME (config env), mo_from_address = GMAIL_USER (config env),
         mo_to = ''a@x.com, b@x.com'', mo_subject = ''S'', mo_html = None, mo_text = Some ''C'',
         mo_attachments = None \<rparr>"
    by (simp add: sendEmail_mailOptions_def)
qed

section \<open>Batch operations\<close>

lemma bulkTask_outcome:
  "\<exists>r. fst (bulkTask env email w) = Inr r \<and> res_to r = formatTo (opt_to email)"
  using sendEmail_returns [of env email w]
  by (auto simp: bulkTask_def split: prod.splits sum.splits)

lemma sendBulkEmails_results:
  assumes "{0..<length emails} \<subseteq> set schedule"
  shows "sendBulkEmails env schedule emails w =
           (Some (map (bulkResult emails) (enumerate 0 (fst (mapAsync (bulkTask env) emails w)))),
            snd (mapAsync (bulkTask env) emails w))"
proof -
  have "allSettled schedule (fst (mapAsync (bulkTask env) emails w))
          = Some (fst (mapAsync (bulkTask env) emails w))"
    using assms by (intro allSettled_complete) (simp add: mapAsync_length)
  then show ?thesis
    by (cases "mapAsync (bulkTask env) emails w") (simp add: sendBulkEmails_def)
qed

lemma sendTemplatedEmails_results:
  assumes "{0..<length templates} \<subseteq> set schedule"
  shows "sendTemplatedEmails env schedule templates defaultTo w =
           (Some (map (templatedResult templates defaultTo)
                    (enumerate 0 (fst (mapAsync (templateTask env defaultTo) templates w)))),
            snd (mapAsync (templateTask env defaultTo) templates w))"
proof -
  have "allSettled schedule (fst (mapAsync (templateTask env defaultTo) templates w))
          = Some (fst (mapAsync (templateTask env defaultTo) templates w))"
    using assms by (intro allSettled_complete) (simp add: mapAsync_length)
  then show ?thesis
    by (cases "mapAsync (templateTask env defaultTo) templates w")
       (simp add: sendTemplatedEmails_def)
qed

text \<open>The i-th result, when every task settles.\<close>

lemma sendBulkEmails_nth:
  assumes "{0..<length emails} \<subseteq> set schedule" and "i < length emails"
  shows "\<exists>rs. fst (sendBulkEmails env schedule emails w) = Some rs \<and> length rs = length emails \<and>
           rs ! i = bulkResult emails
             (i, fst (bulkTask env (emails ! i) (snd (mapAsync (bulkTask env) (take i emails) w))))"
  using assms
  by (simp add: sendBulkEmails_results mapAsync_length nth_enumerate_eq mapAsync_nth)

lemma sendTemplatedEmails_nth:
  assumes "{0..<length templates} \<subseteq> set schedule" and "i < length templates"
  shows "\<exists>rs. fst (sendTemplatedEmails env schedule templates defaultTo w) = Some rs \<and>
           length rs = length templates \<and>
           rs ! i = templatedResult templates defaultTo
             (i, fst (templateTask env defaultTo (templates ! i)
                        (snd (mapAsync (templateTask env defaultTo) (take i templates) w))))"
  using assms
  by (simp add: sendTemplatedEmails_results mapAsync_length nth_enumerate_eq mapAsync_nth)

lemma templateTask_fulfilled:
  "fst (templateTask env defaultTo template w) = Inr r \<Longrightarrow>
   success r \<and> templateId r = tpl_id template \<and> error r = None \<and>
   (\<exists>to. recipientOr (tpl_to template) defaultTo = Some to \<and> truthy_recipient (Some to) \<and>
         res_to r = formatTo to)"
  by (auto simp: templateTask_def Let_def split: option.splits if_splits prod.splits sum.splits)

lemma templatedResult_rejected:
  "i < length templates \<Longrightarrow>
   templatedResult templates defaultTo (i, Inl reason) =
     \<lparr> success = False, messageId = None, error = Some (reasonMessage reason ''send failed''),
       res_to = (case recipientOr (tpl_to (templates ! i)) defaultTo of
                   Some (Addrs as) \<Rightarrow> join '', '' as
                 | Some (Addr s) \<Rightarrow> (if s \<noteq> [] then s else ''unknown'')
                 | None \<Rightarrow> ''unknown''),
       templateId = (if tpl_id (templates ! i) \<noteq> [] then tpl_id (templates ! i) else ''unknown'') \<rparr>"
  by (simp add: templatedResult_def nth_opt_def truthy_def nonNull_def Let_def)

text \<open>
  Claim C1, as stated, fails for \<^verbatim>\<open>sendTemplatedEmails\<close>: a template whose \<^verbatim>\<open>id\<close> is the empty
  string and which fails (here: no recipient) is reported with \<^verbatim>\<open>templateId\<close>
  \<^verbatim>\<open>"unknown"\<close>, not with its own id, because the failure branch computes
  \<^verbatim>\<open>template?.id || 'unknown'\<close>.
\<close>

theorem templateId_counterexample:
  "fst (sendTemplatedEmails demo_env [0]
          [\<lparr> tpl_id = '''', tpl_subject = ''S'', tpl_html = Some ''<p>hi</p>'', tpl_text = None,
              tpl_to = None, tpl_attachments = [] \<rparr>] None demo_world)
     = Some [\<lparr> success = False, messageId = None,
                error = Some ''Template  has no recipient specified'',
                res_to = ''unknown'', templateId = ''unknown'' \<rparr>]
   \<and> tpl_id \<lparr> tpl_id = '''', tpl_subject = ''S'', tpl_html = Some ''<p>hi</p>'', tpl_text = None,
              tpl_to = None, tpl_attachments = [] \<rparr> \<noteq> ''unknown''"
  by (simp add: model_defs)

text \<open>
  Claim C1, amended. When every task settles, in whatever order (the schedule), both batch
  operations return an array as long as the input. The \<open>i\<close>-th result of \<^verbatim>\<open>sendBulkEmails\<close>
  carries the recipient of the \<open>i\<close>-th email. The \<open>i\<close>-th result of \<^verbatim>\<open>sendTemplatedEmails\<close>
  carries the id of the \<open>i\<close>-th template, except that a failed template whose id is the
  empty string is reported as \<^verbatim>\<open>"unknown"\<close>. The whole outcome is the one of the schedule
  in which the tasks settle in input order. Nothing is assumed about which items fail.
\<close>

theorem batch_results_in_input_order:
  assumes "{0..<length emails} \<subseteq> set schedule"
      and "{0..<length templates} \<subseteq> set schedule'"
  shows "(\<exists>rs. fst (sendBulkEmails env schedule emails w) = Some rs \<and> length rs = length emails \<and>
            (\<forall>i<length emails. res_to (rs ! i) = formatTo (opt_to (emails ! i)))) \<and>
         sendBulkEmails env schedule emails w = sendBulkEmails env [0..<length emails] emails w \<and>
         (\<exists>rs. fst (sendTemplatedEmails env schedule' templates defaultTo w) = Some rs \<and>
            length rs = length templates \<and>
            (\<forall>i<length templates.
               templateId (rs ! i) =
                 (if \<not> success (rs ! i) \<and> tpl_id (templates ! i) = [] then ''unknown''
                  else tpl_id (templates ! i)))) \<and>
         sendTemplatedEmails env schedule' templates defaultTo w =
           sendTemplatedEmails env [0..<length templates] templates defaultTo w"
proof (intro conjI)
  let ?bs = "map (bulkResult emails) (enumerate 0 (fst (mapAsync (bulkTask env) emails w)))"
  show "\<exists>rs. fst (sendBulkEmails env schedule emails w) = Some rs \<and> length rs = length emails \<and>
            (\<forall>i<length emails. res_to (rs ! i) = formatTo (opt_to (emails ! i)))"
  proof (intro exI [of _ ?bs] conjI allI impI)
    show "fst (sendBulkEmails env schedule emails w) = Some ?bs"
      using assms(1) by (simp add: sendBulkEmails_results)
    show "length ?bs = length emails" by (simp add: mapAsync_length)
    fix i assume i: "i < length emails"
    let ?wi = "snd (mapAsync (bulkTask env) (take i emails) w)"
    obtain r where r: "fst (bulkTask env (emails ! i) ?wi) = Inr r"
      "res_to r = formatTo (opt_to (emails ! i))"
      using bulkTask_outcome [of env "emails ! i" ?wi] by blast
    have "?bs ! i = bulkResult emails (i, fst (bulkTask env (emails ! i) ?wi))"
      using i by (simp add: mapAsync_length nth_enumerate_eq mapAsync_nth)
    then show "res_to (?bs ! i) = formatTo (opt_to (emails ! i))"
      using r by (simp add: bulkResult_def)
  qed
  show "sendBulkEmails env schedule emails w = sendBulkEmails env [0..<length emails] emails w"
    using assms(1) by (simp add: sendBulkEmails_results)
  let ?ts = "map (templatedResult templates defaultTo)
               (enumerate 0 (fst (mapAsync (templateTask env defaultTo) templates w)))"
  show "\<exists>rs. fst (sendTemplatedEmails env schedule' templates defaultTo w) = Some rs \<and>
            length rs = length templates \<and>
            (\<forall>i<length templates.
               templateId (rs ! i) =
                 (if \<not> success (rs ! i) \<and> tpl_id (templates ! i) = [] then ''unknown''
                  else tpl_id (templates ! i)))"
  proof (intro exI [of _ ?ts] conjI allI impI)
    show "fst (sendTemplatedEmails env schedule' templates defaultTo w) = Some ?ts"
      using assms(2) by (simp add: sendTemplatedEmails_results)
    show "length ?ts = length templates" by (simp add: mapAsync_length)
    fix i assume i: "i < length templates"
    let ?wi = "snd (mapAsync (templateTask env defaultTo) (take i templates) w)"
    let ?o = "fst (templateTask env defaultTo (templates ! i) ?wi)"
    have nth: "?ts ! i = templatedResult templates defaultTo (i, ?o)"
      using i by (simp add: mapAsync_length nth_enumerate_eq mapAsync_nth)
    show "templateId (?ts ! i) =
            (if \<not> success (?ts ! i) \<and> tpl_id (templates ! i) = [] then ''unknown''
             else tpl_id (templates ! i))"
    proof (cases ?o)
      case (Inl reason)
      then show ?thesis
        using nth templatedResult_rejected [OF i, of defaultTo reason] by simp
    next
      case (Inr r)
      then have "?ts ! i = r" using nth by (simp add: templatedResult_def)
      then show ?thesis using templateTask_fulfilled [OF Inr] by simp
    qed
  qed
  show "sendTemplatedEmails env schedule' templates defaultTo w =
          sendTemplatedEmails env [0..<length templates] templates defaultTo w"
    using assms(2) by (simp add: sendTemplatedEmails_results)
qed

theorem batch_results_in_input_order_witness:
  "{0..<length demo_emails} \<subseteq> set [1, 0] \<and>
   {0..<length demo_templates} \<subseteq> set [2, 0, 1] \<and>
   ((\<exists>rs. fst (sendBulkEmails demo_env [1, 0] demo_emails demo_world) = Some rs \<and>
          length rs = length demo_emails \<and>
          (\<forall>i<length demo_emails. res_to (rs ! i) = formatTo (opt_to (demo_emails ! i)))) \<and>
    sendBulkEmails demo_env [1, 0] demo_emails demo_world =
      sendBulkEmails demo_env [0..<length demo_emails] demo_emails demo_world \<and>
    (\<exists>rs. fst (sendTemplatedEmails demo_env [2, 0, 1] demo_templates None demo_world) = Some rs \<and>
          length rs = length demo_templates \<and>
          (\<forall>i<length demo_templates.
             templateId (rs ! i) =
               (if \<not> success (rs ! i) \<and> tpl_id (demo_templates ! i) = [] then ''unknown''
                else tpl_id (demo_templates ! i)))) \<and>
    sendTemplatedEmails demo_env [2, 0, 1] demo_templates None demo_world =
      sendTemplatedEmails demo_env [0..<length demo_templates] demo_templates None demo_world)"
proof -
  have h1: "{0..<length demo_emails} \<subseteq> set [1, 0]"
    by (auto simp: demo_emails_def)
  have h2: "{0..<length demo_templates} \<subseteq> set [2, 0, 1]"
    by (auto simp: demo_templates_def)
  note c = batch_results_in_input_order [OF h1 h2, of demo_env demo_world None]
  show ?thesis by (rule conjI [OF h1 conjI [OF h2 c]])
qed


section \<open>processAttachments\<close>

lemma processAttachment_path:
  assumes "att_path a = Some p" and "p \<noteq> []"
  shows "processAttachment env a w =
     (Inr \<lparr> pa_filename = att_filename a, pa_contentType = att_contentType a,
            pa_cid = (if truthy (att_cid a) then att_cid a else None),
            pa_contentDisposition = att_disposition a,
            pa_path = Some (resolveAttachmentPath env p),
            pa_content = None, pa_raw = None, pa_encoding = None \<rparr>,
      if existsSync env (resolveAttachmentPath env p) then w
      else w\<lparr>console := console w
               @ [''Warning: Attachment file not found: '' @ resolveAttachmentPath env p]\<rparr>)"
  using assms by (auto simp: processAttachment_def truthy_def nonNull_def Let_def)

lemma processAttachment_content:
  assumes "\<not> truthy (att_path a)" and "att_content a = Some c"
  shows "processAttachment env a w =
     (Inr \<lparr> pa_filename = att_filename a, pa_contentType = att_contentType a,
            pa_cid = (if truthy (att_cid a) then att_cid a else None),
            pa_contentDisposition = att_disposition a,
            pa_path = None, pa_content = Some c, pa_raw = None,
            pa_encoding = (if truthy (att_encoding a) then att_encoding a else None) \<rparr>, w)"
  using assms by (auto simp: processAttachment_def Let_def)

lemma processAttachment_stream:
  assumes "\<not> truthy (att_path a)" and "att_content a = None" and "att_stream a = Some s"
  shows "processAttachment env a w =
     (Inr \<lparr> pa_filename = att_filename a, pa_contentType = att_contentType a,
            pa_cid = (if truthy (att_cid a) then att_cid a else None),
            pa_contentDisposition = att_disposition a,
            pa_path = None, pa_content = None, pa_raw = Some s, pa_encoding = None \<rparr>, w)"
  using assms by (auto simp: processAttachment_def Let_def)

lemma processAttachment_missing:
  assumes "\<not> truthy (att_path a)" and "att_content a = None" and "att_stream a = None"
  shows "processAttachment env a w = (Inl (missingSourceError a), w)"
  using assms by (auto simp: processAttachment_def Let_def)


lemma not_truthy_iff: "(\<not> truthy v) = (v \<in> {None, Some []})"
  by (cases v) (auto simp: truthy_def)

text \<open>
  Claim C3, as stated, fails for a path that is set to the empty string: the guard
  \<^verbatim>\<open>if (attachment.path)\<close> tests truthiness, so this attachment, whose \<^verbatim>\<open>path\<close> and
  \<^verbatim>\<open>content\<close> are both set, is resolved from its content and carries no path.
\<close>

theorem path_set_but_empty_counterexample:
  "fst (processAttachment demo_env
          (demo_attachment\<lparr>att_path := Some [], att_content := Some (StringContent ''data'')\<rparr>)
          demo_world)
     = Inr \<lparr> pa_filename = ''logo.png'', pa_contentType = ''image/png'', pa_cid = None,
             pa_contentDisposition = None, pa_path = None,
             pa_content = Some (StringContent ''data''), pa_raw = None, pa_encoding = None \<rparr>"
  by (simp add: model_defs)

text \<open>
  Claim C3, amended. A path that is a non-empty string wins: the resolved attachment
  carries the resolved path and no content, stream or encoding, whatever else was
  supplied. With the path absent or empty and the content defined, it carries the content,
  and the encoding when that is a non-empty string. With the path absent or empty, no
  content and a stream, it carries the stream. With none of the three, resolution throws
  the error whose message names the file:
  \<^verbatim>\<open>Attachment <filename> must have either 'path', 'content', or 'stream'\<close>.
\<close>

theorem attachment_source_precedence:
  "(att_path a = Some p \<and> p \<noteq> [] \<longrightarrow>
      (\<exists>r. fst (processAttachment env a w) = Inr r \<and>
           pa_path r = Some (resolveAttachmentPath env p) \<and>
           pa_content r = None \<and> pa_raw r = None \<and> pa_encoding r = None)) \<and>
   (att_path a \<in> {None, Some []} \<and> att_content a = Some c \<longrightarrow>
      (\<exists>r. fst (processAttachment env a w) = Inr r \<and>
           pa_path r = None \<and> pa_content r = Some c \<and> pa_raw r = None \<and>
           pa_encoding r = (if att_encoding a \<in> {None, Some []} then None else att_encoding a))) \<and>
   (att_path a \<in> {None, Some []} \<and> att_content a = None \<and> att_stream a = Some s \<longrightarrow>
      (\<exists>r. fst (processAttachment env a w) = Inr r \<and>
           pa_path r = None \<and> pa_content r = None \<and> pa_raw r = Some s \<and> pa_encoding r = None)) \<and>
   (att_path a \<in> {None, Some []} \<and> att_content a = None \<and> att_stream a = None \<longrightarrow>
      fst (processAttachment env a w) =
        Inl (JsError (''Attachment '' @ att_filename a @ '' must have either ''
               @ quoted ''path'' @ '', '' @ quoted ''content'' @ '', or '' @ quoted ''stream'')))"
proof (intro conjI impI)
  assume "att_path a = Some p \<and> p \<noteq> []"
  then show "\<exists>r. fst (processAttachment env a w) = Inr r \<and>
           pa_path r = Some (resolveAttachmentPath env p) \<and>
           pa_content r = None \<and> pa_raw r = None \<and> pa_encoding r = None"
    by (simp add: processAttachment_path)
next
  assume h: "att_path a \<in> {None, Some []} \<and> att_content a = Some c"
  then have "\<not> truthy (att_path a)" by (simp add: not_truthy_iff)
  with h show "\<exists>r. fst (processAttachment env a w) = Inr r \<and>
           pa_path r = None \<and> pa_content r = Some c \<and> pa_raw r = None \<and>
           pa_encoding r = (if att_encoding a \<in> {None, Some []} then None else att_encoding a)"
    by (cases "att_encoding a") (auto simp: processAttachment_content truthy_def)
next
  assume h: "att_path a \<in> {None, Some []} \<and> att_content a = None \<and> att_stream a = Some s"
  then have "\<not> truthy (att_path a)" by (simp add: not_truthy_iff)
  with h show "\<exists>r. fst (processAttachment env a w) = Inr r \<and>
           pa_path r = None \<and> pa_content r = None \<and> pa_raw r = Some s \<and> pa_encoding r = None"
    by (simp add: processAttachment_stream)
next
  assume h: "att_path a \<in> {None, Some []} \<and> att_content a = None \<and> att_stream a = None"
  then have "\<not> truthy (att_path a)" by (simp add: not_truthy_iff)
  with h show "fst (processAttachment env a w) =
        Inl (JsError (''Attachment '' @ att_filename a @ '' must have either ''
               @ quoted ''path'' @ '', '' @ quoted ''content'' @ '', or '' @ quoted ''stream''))"
    by (simp add: processAttachment_missing missingSourceError_def)
qed

text \<open>The four cases of C3 on example attachments; the first has all three sources set.\<close>

theorem attachment_source_precedence_witness:
  "(\<exists>r. fst (processAttachment demo_env
             (demo_attachment\<lparr>att_path := Some ''/srv/logo.png'',
                               att_content := Some (StringContent ''data''),
                               att_stream := Some (Readable 7)\<rparr>) demo_world) = Inr r \<and>
        pa_path r = Some ''/srv/logo.png'' \<and> pa_content r = None \<and> pa_raw r = None \<and>
        pa_encoding r = None) \<and>
   (\<exists>r. fst (processAttachment demo_env
             (demo_attachment\<lparr>att_content := Some (StringContent ''data''),
                               att_stream := Some (Readable 7),
                               att_encoding := Some ''base64''\<rparr>) demo_world) = Inr r \<and>
        pa_path r = None \<and> pa_content r = Some (StringContent ''data'') \<and> pa_raw r = None \<and>
        pa_encoding r = Some ''base64'') \<and>
   (\<exists>r. fst (processAttachment demo_env
             (demo_attachment\<lparr>att_stream := Some (Readable 7)\<rparr>) demo_world) = Inr r \<and>
        pa_path r = None \<and> pa_content r = None \<and> pa_raw r = Some (Readable 7) \<and>
        pa_encoding r = None) \<and>
   fst (processAttachment demo_env demo_attachment demo_world)
     = Inl (JsError (''Attachment logo.png must have either '' @ quoted ''path'' @ '', ''
                       @ quoted ''content'' @ '', or '' @ quoted ''stream''))"
proof -
  let ?a1 = "demo_attachment\<lparr>att_path := Some ''/srv/logo.png'',
                               att_content := Some (StringContent ''data''),
                               att_stream := Some (Readable 7)\<rparr>"
  let ?a2 = "demo_attachment\<lparr>att_content := Some (StringContent ''data''),
                               att_stream := Some (Readable 7),
                               att_encoding := Some ''base64''\<rparr>"
  let ?a3 = "demo_attachment\<lparr>att_stream := Some (Readable 7)\<rparr>"
  have rp: "resolveAttachmentPath demo_env ''/srv/logo.png'' = ''/srv/logo.png''"
    by (simp add: model_defs)
  have c1: "\<exists>r. fst (processAttachment demo_env ?a1 demo_world) = Inr r \<and>
        pa_path r = Some ''/srv/logo.png'' \<and> pa_content r = None \<and> pa_raw r = None \<and>
        pa_encoding r = None"
    using attachment_source_precedence [of ?a1 "''/srv/logo.png''" demo_env demo_world] rp
    by simp
  have c2: "\<exists>r. fst (processAttachment demo_env ?a2 demo_world) = Inr r \<and>
        pa_path r = None \<and> pa_content r = Some (StringContent ''data'') \<and> pa_raw r = None \<and>
        pa_encoding r = Some ''base64''"
    using attachment_source_precedence [of ?a2 _ demo_env demo_world "StringContent ''data''"]
    by (simp add: demo_attachment_def)
  have c3: "\<exists>r. fst (processAttachment demo_env ?a3 demo_world) = Inr r \<and>
        pa_path r = None \<and> pa_content r = None \<and> pa_raw r = Some (Readable 7) \<and>
        pa_encoding r = None"
    using attachment_source_precedence [of ?a3 _ demo_env demo_world _ "Readable 7"]
    by (simp add: demo_attachment_def)
  have c4: "fst (processAttachment demo_env demo_attachment demo_world)
     = Inl (JsError (''Attachment logo.png must have either '' @ quoted ''path'' @ '', ''
                       @ quoted ''content'' @ '', or '' @ quoted ''stream''))"
    using attachment_source_precedence [of demo_attachment _ demo_env demo_world]
    by (simp add: demo_attachment_def)
  show ?thesis
    by (rule conjI [OF c1 conjI [OF c2 conjI [OF c3 c4]]])
qed


text \<open>
  Claim C7, as stated, fails: for an attachment without \<^verbatim>\<open>disposition\<close> the resolved
  attachment has no \<^verbatim>\<open>contentDisposition\<close> at all. No default is applied by this module.
\<close>

theorem disposition_default_counterexample:
  "fst (processAttachment demo_env
          (demo_attachment\<lparr>att_content := Some (StringContent ''data'')\<rparr>) demo_world)
     = Inr \<lparr> pa_filename = ''logo.png'', pa_contentType = ''image/png'', pa_cid = None,
             pa_contentDisposition = None, pa_path = None,
             pa_content = Some (StringContent ''data''), pa_raw = None, pa_encoding = None \<rparr>
   \<and> att_disposition (demo_attachment\<lparr>att_content := Some (StringContent ''data'')\<rparr>) = None
   \<and> (None :: disposition option) \<noteq> Some Attachment"
  by (simp add: model_defs)

text \<open>
  Claim C7, amended. Whenever an attachment resolves, its \<^verbatim>\<open>cid\<close> is carried unchanged when
  it is a non-empty string and left out otherwise, and its \<^verbatim>\<open>disposition\<close> is carried
  unchanged when present; when the disposition is unspecified the resolved attachment has
  no \<^verbatim>\<open>contentDisposition\<close> field.
\<close>

theorem cid_and_disposition_carried:
  assumes "fst (processAttachment env a w) = Inr r"
  shows "pa_cid r = (if att_cid a \<in> {None, Some []} then None else att_cid a) \<and>
         pa_contentDisposition r = att_disposition a"
proof -
  have cid: "(if truthy (att_cid a) then att_cid a else None)
               = (if att_cid a \<in> {None, Some []} then None else att_cid a)"
    by (cases "att_cid a") (auto simp: truthy_def)
  consider (path) "truthy (att_path a)"
    | (content) "\<not> truthy (att_path a)" "att_content a \<noteq> None"
    | (stream) "\<not> truthy (att_path a)" "att_content a = None" "att_stream a \<noteq> None"
    | (missing) "\<not> truthy (att_path a)" "att_content a = None" "att_stream a = None"
    by blast
  then show ?thesis
  proof cases
    case path
    then obtain p where "att_path a = Some p" "p \<noteq> []"
      by (cases "att_path a") (auto simp: truthy_def)
    then show ?thesis using assms cid by (auto simp: processAttachment_path)
  next
    case content
    then obtain c where "att_content a = Some c" by auto
    with content show ?thesis using assms cid by (auto simp: processAttachment_content)
  next
    case stream
    then obtain s where "att_stream a = Some s" by auto
    with stream show ?thesis using assms cid by (auto simp: processAttachment_stream)
  next
    case missing
    then show ?thesis using assms by (simp add: processAttachment_missing)
  qed
qed

text \<open>C7 on an inline image with a cid.\<close>

theorem cid_and_disposition_carried_witness:
  "fst (processAttachment demo_env
          (demo_attachment\<lparr>att_content := Some (StringContent ''data''),
                            att_cid := Some ''logoCid'', att_disposition := Some Inline\<rparr>)
          demo_world)
     = Inr \<lparr> pa_filename = ''logo.png'', pa_contentType = ''image/png'',
             pa_cid = Some ''logoCid'', pa_contentDisposition = Some Inline, pa_path = None,
             pa_content = Some (StringContent ''data''), pa_raw = None, pa_encoding = None \<rparr>
   \<and> (pa_cid \<lparr> pa_filename = ''logo.png'', pa_contentType = ''image/png'',
             pa_cid = Some ''logoCid'', pa_contentDisposition = Some Inline, pa_path = None,
             pa_content = Some (StringContent ''data''), pa_raw = None, pa_encoding = None \<rparr>
        = (if att_cid (demo_attachment\<lparr>att_content := Some (StringContent ''data''),
                            att_cid := Some ''logoCid'', att_disposition := Some Inline\<rparr>)
                \<in> {None, Some []}
           then None
           else att_cid (demo_attachment\<lparr>att_content := Some (StringContent ''data''),
                            att_cid := Some ''logoCid'', att_disposition := Some Inline\<rparr>))
      \<and> pa_contentDisposition \<lparr> pa_filename = ''logo.png'', pa_contentType = ''image/png'',
             pa_cid = Some ''logoCid'', pa_contentDisposition = Some Inline, pa_path = None,
             pa_content = Some (StringContent ''data''), pa_raw = None, pa_encoding = None \<rparr>
        = att_disposition (demo_attachment\<lparr>att_content := Some (StringContent ''data''),
                            att_cid := Some ''logoCid'', att_disposition := Some Inline\<rparr>))"
proof -
  let ?a = "demo_attachment\<lparr>att_content := Some (StringContent ''data''),
                            att_cid := Some ''logoCid'', att_disposition := Some Inline\<rparr>"
  let ?r = "\<lparr> pa_filename = ''logo.png'', pa_contentType = ''image/png'',
             pa_cid = Some ''logoCid'', pa_contentDisposition = Some Inline, pa_path = None,
             pa_content = Some (StringContent ''data''), pa_raw = None, pa_encoding = None \<rparr>"
  have h: "fst (processAttachment demo_env ?a demo_world) = Inr ?r"
    by (simp add: model_defs)
  show ?thesis
    by (rule conjI [OF h cid_and_disposition_carried [OF h]])
qed

subsection \<open>Missing files\<close>

lemma processAttachment_transport:
  "transport (snd (processAttachment env a w)) = transport w"
  by (auto simp: processAttachment_def Let_def)

lemma processAttachments_transport:
  "transport (snd (processAttachments env as w)) = transport w"
proof (induction as arbitrary: w)
  case Nil
  then show ?case by simp
next
  case (Cons a as)
  show ?case
    using Cons.IH [of "snd (processAttachment env a w)"] processAttachment_transport [of env a w]
    by (auto split: prod.splits sum.splits)
qed

lemma processAttachment_has_source:
  assumes "truthy (att_path a) \<or> att_content a \<noteq> None \<or> att_stream a \<noteq> None"
  shows "\<exists>r. fst (processAttachment env a w) = Inr r \<and>
           (truthy (att_path a) \<longrightarrow>
              pa_path r = Some (resolveAttachmentPath env (nonNull (att_path a))))"
  using assms by (auto simp: processAttachment_def Let_def)

text \<open>A list of attachments that all name a source resolves, whatever the file system says.\<close>

lemma processAttachments_has_source:
  assumes "\<forall>a \<in> set as. truthy (att_path a) \<or> att_content a \<noteq> None \<or> att_stream a \<noteq> None"
  shows "\<exists>ps. fst (processAttachments env as w) = Inr ps \<and> length ps = length as \<and>
           (\<forall>i<length as. truthy (att_path (as ! i)) \<longrightarrow>
              pa_path (ps ! i) = Some (resolveAttachmentPath env (nonNull (att_path (as ! i)))))"
  using assms
proof (induction as arbitrary: w)
  case Nil
  then show ?case by simp
next
  case (Cons a as)
  obtain r where r: "fst (processAttachment env a w) = Inr r"
    "truthy (att_path a) \<longrightarrow> pa_path r = Some (resolveAttachmentPath env (nonNull (att_path a)))"
    using processAttachment_has_source [of a env w] Cons.prems by auto
  obtain w1 where w1: "processAttachment env a w = (Inr r, w1)"
    using r(1) by (cases "processAttachment env a w") auto
  obtain ps where ps: "fst (processAttachments env as w1) = Inr ps" "length ps = length as"
    "\<forall>i<length as. truthy (att_path (as ! i)) \<longrightarrow>
       pa_path (ps ! i) = Some (resolveAttachmentPath env (nonNull (att_path (as ! i))))"
    using Cons.IH [of w1] Cons.prems by auto
  obtain w2 where w2: "processAttachments env as w1 = (Inr ps, w2)"
    using ps(1) by (cases "processAttachments env as w1") auto
  have "fst (processAttachments env (a # as) w) = Inr (r # ps)"
    using w1 w2 by simp
  moreover have "\<forall>i<length (a # as). truthy (att_path ((a # as) ! i)) \<longrightarrow>
       pa_path ((r # ps) ! i) = Some (resolveAttachmentPath env (nonNull (att_path ((a # as) ! i))))"
    using r(2) ps(3) by (auto simp: nth_Cons split: nat.splits)
  ultimately show ?case using ps(2) by auto
qed

lemma templateTask_sends:
  assumes "recipientOr (tpl_to t) d = Some to" and "truthy_recipient (Some to)"
      and "truthy (tpl_html t) \<or> truthy (tpl_text t)"
      and "processAttachments env (tpl_attachments t) w = (Inr ps, w1)"
  shows "templateTask env d t w =
     (case sendMail env (template_mailOptions env to t ps) (transport w1) of
        (Inl err, tr) \<Rightarrow> (Inl err, w1\<lparr>transport := tr\<rparr>)
      | (Inr info_messageId, tr) \<Rightarrow>
          (Inr \<lparr> success = True, messageId = Some info_messageId, error = None,
                 res_to = formatTo to, templateId = tpl_id t \<rparr>, w1\<lparr>transport := tr\<rparr>))"
  using assms
  by (auto simp: templateTask_def Let_def truthy_def nonNull_def split: option.splits)


text \<open>
  Claim C8. An attachment taken from a path (a non-empty \<^verbatim>\<open>path\<close>) whose resolved path
  does not exist still resolves: the result carries the resolved path, and the only
  effect is one line of warning on the console. The send is still attempted: for a
  template with a recipient and a body, all of whose attachments name a source, every
  attachment resolves whatever the file system says about the paths, and the transport is
  handed the message with the resolved attachments; the outcome of the task is the
  transport's.
\<close>

theorem missing_file_is_advisory:
  "(att_path a = Some p \<and> p \<noteq> [] \<and> \<not> existsSync env (resolveAttachmentPath env p) \<longrightarrow>
      (\<exists>r. processAttachment env a w =
             (Inr r, w\<lparr>console := console w
                        @ [''Warning: Attachment file not found: '' @ resolveAttachmentPath env p]\<rparr>) \<and>
           pa_path r = Some (resolveAttachmentPath env p))) \<and>
   (recipientOr (tpl_to t) d = Some to \<and> truthy_recipient (Some to) \<and>
    (truthy (tpl_html t) \<or> truthy (tpl_text t)) \<and>
    (\<forall>b \<in> set (tpl_attachments t).
        truthy (att_path b) \<or> att_content b \<noteq> None \<or> att_stream b \<noteq> None) \<longrightarrow>
      (\<exists>ps. fst (processAttachments env (tpl_attachments t) w) = Inr ps \<and>
            length ps = length (tpl_attachments t) \<and>
            (\<forall>i<length (tpl_attachments t). truthy (att_path (tpl_attachments t ! i)) \<longrightarrow>
               pa_path (ps ! i) =
                 Some (resolveAttachmentPath env (nonNull (att_path (tpl_attachments t ! i))))) \<and>
            transport (snd (templateTask env d t w)) =
              snd (sendMail env (template_mailOptions env to t ps) (transport w)) \<and>
            fst (templateTask env d t w) =
              (case fst (sendMail env (template_mailOptions env to t ps) (transport w)) of
                 Inl err \<Rightarrow> Inl err
               | Inr info_messageId \<Rightarrow>
                   Inr \<lparr> success = True, messageId = Some info_messageId, error = None,
                          res_to = formatTo to, templateId = tpl_id t \<rparr>)))"
proof (intro conjI impI)
  assume "att_path a = Some p \<and> p \<noteq> [] \<and> \<not> existsSync env (resolveAttachmentPath env p)"
  then show "\<exists>r. processAttachment env a w =
             (Inr r, w\<lparr>console := console w
                        @ [''Warning: Attachment file not found: '' @ resolveAttachmentPath env p]\<rparr>) \<and>
           pa_path r = Some (resolveAttachmentPath env p)"
    by (simp add: processAttachment_path)
next
  assume h: "recipientOr (tpl_to t) d = Some to \<and> truthy_recipient (Some to) \<and>
    (truthy (tpl_html t) \<or> truthy (tpl_text t)) \<and>
    (\<forall>b \<in> set (tpl_attachments t).
        truthy (att_path b) \<or> att_content b \<noteq> None \<or> att_stream b \<noteq> None)"
  then obtain ps where ps: "fst (processAttachments env (tpl_attachments t) w) = Inr ps"
    "length ps = length (tpl_attachments t)"
    "\<forall>i<length (tpl_attachments t). truthy (att_path (tpl_attachments t ! i)) \<longrightarrow>
               pa_path (ps ! i) =
                 Some (resolveAttachmentPath env (nonNull (att_path (tpl_attachments t ! i))))"
    using processAttachments_has_source [of "tpl_attachments t" env w] by blast
  obtain w1 where w1: "processAttachments env (tpl_attachments t) w = (Inr ps, w1)"
    using ps(1) by (cases "processAttachments env (tpl_attachments t) w") auto
  have tr: "transport w1 = transport w"
    using processAttachments_transport [of env "tpl_attachments t" w] w1 by simp
  have task: "templateTask env d t w =
     (case sendMail env (template_mailOptions env to t ps) (transport w) of
        (Inl err, tr) \<Rightarrow> (Inl err, w1\<lparr>transport := tr\<rparr>)
      | (Inr info_messageId, tr) \<Rightarrow>
          (Inr \<lparr> success = True, messageId = Some info_messageId, error = None,
                 res_to = formatTo to, templateId = tpl_id t \<rparr>, w1\<lparr>transport := tr\<rparr>))"
    using templateTask_sends [of t d to env w ps w1] h w1 tr by simp
  have "transport (snd (templateTask env d t w)) =
              snd (sendMail env (template_mailOptions env to t ps) (transport w))"
    unfolding task by (simp split: prod.splits sum.splits)
  moreover have "fst (templateTask env d t w) =
              (case fst (sendMail env (template_mailOptions env to t ps) (transport w)) of
                 Inl err \<Rightarrow> Inl err
               | Inr info_messageId \<Rightarrow>
                   Inr \<lparr> success = True, messageId = Some info_messageId, error = None,
                          res_to = formatTo to, templateId = tpl_id t \<rparr>)"
    unfolding task by (simp split: prod.splits sum.splits)
  ultimately show "\<exists>ps. fst (processAttachments env (tpl_attachments t) w) = Inr ps \<and>
            length ps = length (tpl_attachments t) \<and>
            (\<forall>i<length (tpl_attachments t). truthy (att_path (tpl_attachments t ! i)) \<longrightarrow>
               pa_path (ps ! i) =
                 Some (resolveAttachmentPath env (nonNull (att_path (tpl_attachments t ! i))))) \<and>
            transport (snd (templateTask env d t w)) =
              snd (sendMail env (template_mailOptions env to t ps) (transport w)) \<and>
            fst (templateTask env d t w) =
              (case fst (sendMail env (template_mailOptions env to t ps) (transport w)) of
                 Inl err \<Rightarrow> Inl err
               | Inr info_messageId \<Rightarrow>
                   Inr \<lparr> success = True, messageId = Some info_messageId, error = None,
                          res_to = formatTo to, templateId = tpl_id t \<rparr>)"
    using ps by blast
qed


text \<open>
  C8 on the second example template, whose attachment \<^verbatim>\<open>{{assetsDir}}/logo.png\<close> does not
  exist in the example file system.
\<close>

theorem missing_file_is_advisory_witness:
  "(att_path (demo_attachment\<lparr>att_path := Some ''{{assetsDir}}/logo.png''\<rparr>)
      = Some ''{{assetsDir}}/logo.png'' \<and>
    ''{{assetsDir}}/logo.png'' \<noteq> [] \<and>
    \<not> existsSync demo_env (resolveAttachmentPath demo_env ''{{assetsDir}}/logo.png'')) \<and>
   (\<exists>r. processAttachment demo_env
           (demo_attachment\<lparr>att_path := Some ''{{assetsDir}}/logo.png''\<rparr>) demo_world =
           (Inr r, demo_world\<lparr>console := console demo_world
              @ [''Warning: Attachment file not found: ''
                 @ resolveAttachmentPath demo_env ''{{assetsDir}}/logo.png'']\<rparr>) \<and>
        pa_path r = Some (resolveAttachmentPath demo_env ''{{assetsDir}}/logo.png'')) \<and>
   (recipientOr (tpl_to (demo_templates ! 1)) None = Some (Addr ''a@x.com'') \<and>
    truthy_recipient (Some (Addr ''a@x.com'')) \<and>
    (truthy (tpl_html (demo_templates ! 1)) \<or> truthy (tpl_text (demo_templates ! 1))) \<and>
    list_all (\<lambda>b. truthy (att_path b) \<or> att_content b \<noteq> None \<or> att_stream b \<noteq> None)
      (tpl_attachments (demo_templates ! 1))) \<and>
   (\<exists>ps. fst (processAttachments demo_env (tpl_attachments (demo_templates ! 1)) demo_world)
           = Inr ps \<and>
         length ps = length (tpl_attachments (demo_templates ! 1)) \<and>
         (\<forall>i<length (tpl_attachments (demo_templates ! 1)).
            truthy (att_path (tpl_attachments (demo_templates ! 1) ! i)) \<longrightarrow>
            pa_path (ps ! i) =
              Some (resolveAttachmentPath demo_env
                      (nonNull (att_path (tpl_attachments (demo_templates ! 1) ! i))))) \<and>
         transport (snd (templateTask demo_env None (demo_templates ! 1) demo_world)) =
           snd (sendMail demo_env
                  (template_mailOptions demo_env (Addr ''a@x.com'') (demo_templates ! 1) ps)
                  (transport demo_world)) \<and>
         fst (templateTask demo_env None (demo_templates ! 1) demo_world) =
           (case fst (sendMail demo_env
                        (template_mailOptions demo_env (Addr ''a@x.com'') (demo_templates ! 1) ps)
                        (transport demo_world)) of
              Inl err \<Rightarrow> Inl err
            | Inr info_messageId \<Rightarrow>
                Inr \<lparr> success = True, messageId = Some info_messageId, error = None,
                       res_to = formatTo (Addr ''a@x.com''),
                       templateId = tpl_id (demo_templates ! 1) \<rparr>))"
proof -
  note T = missing_file_is_advisory
    [where a = "demo_attachment\<lparr>att_path := Some ''{{assetsDir}}/logo.png''\<rparr>"
       and p = "''{{assetsDir}}/logo.png''" and env = demo_env and w = demo_world
       and t = "demo_templates ! 1" and d = None and to = "Addr ''a@x.com''"]
  have h1: "att_path (demo_attachment\<lparr>att_path := Some ''{{assetsDir}}/logo.png''\<rparr>)
      = Some ''{{assetsDir}}/logo.png'' \<and>
    ''{{assetsDir}}/logo.png'' \<noteq> [] \<and>
    \<not> existsSync demo_env (resolveAttachmentPath demo_env ''{{assetsDir}}/logo.png'')"
    by (simp add: demo_env_def)
  have h2: "recipientOr (tpl_to (demo_templates ! 1)) None = Some (Addr ''a@x.com'') \<and>
    truthy_recipient (Some (Addr ''a@x.com'')) \<and>
    (truthy (tpl_html (demo_templates ! 1)) \<or> truthy (tpl_text (demo_templates ! 1))) \<and>
    (\<forall>b \<in> set (tpl_attachments (demo_templates ! 1)).
        truthy (att_path b) \<or> att_content b \<noteq> None \<or> att_stream b \<noteq> None)"
    by (simp add: demo_templates_def demo_attachment_def recipientOr_def truthy_def)
  have h2': "recipientOr (tpl_to (demo_templates ! 1)) None = Some (Addr ''a@x.com'') \<and>
    truthy_recipient (Some (Addr ''a@x.com'')) \<and>
    (truthy (tpl_html (demo_templates ! 1)) \<or> truthy (tpl_text (demo_templates ! 1))) \<and>
    list_all (\<lambda>b. truthy (att_path b) \<or> att_content b \<noteq> None \<or> att_stream b \<noteq> None)
      (tpl_attachments (demo_templates ! 1))"
    unfolding list_all_iff by (rule h2)
  note c1 = T [THEN conjunct1, THEN mp, OF h1]
  note c2 = T [THEN conjunct2, THEN mp, OF h2]
  show ?thesis
    by (rule conjI [OF h1 conjI [OF c1 conjI [OF h2' c2]]])
qed

text \<open>The whole run on the example templates: one warning, and both messages reach the transport.\<close>

lemma demo_templates_run:
  "sendTemplatedEmails demo_env [2, 0, 1] demo_templates None demo_world =
     (Some [\<lparr> success = False, messageId = None,
               error = Some ''Template  has no recipient specified'',
               res_to = ''unknown'', templateId = ''unknown'' \<rparr>,
            \<lparr> success = True, messageId = Some ''<id@gmail.com>'', error = None,
               res_to = ''a@x.com'', templateId = ''email-2'' \<rparr>,
            \<lparr> success = True, messageId = Some ''<id@gmail.com>'', error = None,
               res_to = ''a@x.com, b@x.com'', templateId = ''email-3'' \<rparr>],
      \<lparr> transport =
          [\<lparr> mo_from_name = ''mailer'', mo_from_address = ''sender@gmail.com'',
              mo_to = ''a@x.com'', mo_subject = ''second'',
              mo_html = Some ''<p>hi</p>'', mo_text = Some ''hi'',
              mo_attachments =
                Some [\<lparr> pa_filename = ''logo.png'', pa_contentType = ''image/png'',
                         pa_cid = None, pa_contentDisposition = None,
                         pa_path = Some ''/tmp/assets/logo.png'', pa_content = None,
                         pa_raw = None, pa_encoding = None \<rparr>] \<rparr>,
           \<lparr> mo_from_name = ''mailer'', mo_from_address = ''sender@gmail.com'',
              mo_to = ''a@x.com, b@x.com'', mo_subject = ''third'',
              mo_html = None, mo_text = Some ''hi'',
              mo_attachments =
                Some [\<lparr> pa_filename = ''logo.png'', pa_contentType = ''image/png'',
                         pa_cid = None, pa_contentDisposition = None, pa_path = None,
                         pa_content = Some (StringContent ''data''), pa_raw = None,
                         pa_encoding = None \<rparr>] \<rparr>],
        console = [''Warning: Attachment file not found: /tmp/assets/logo.png''] \<rparr>)"
  by (simp add: model_defs)


subsection \<open>The guards of the three sources\<close>

lemma processAttachment_throws_iff:
  "(\<exists>e. fst (processAttachment env a w) = Inl e) =
     (\<not> truthy (att_path a) \<and> att_content a = None \<and> att_stream a = None)"
  by (auto simp: processAttachment_def Let_def)

lemma processAttachment_throws_only:
  "fst (processAttachment env a w) = Inl e \<Longrightarrow> e = missingSourceError a"
  by (auto simp: processAttachment_def Let_def split: if_splits)

text \<open>
  Claim C10. The guards are asymmetric: \<^verbatim>\<open>path\<close> and \<^verbatim>\<open>stream\<close> are tested for truthiness,
  \<^verbatim>\<open>content\<close> for being defined. An empty-string path is treated exactly like an absent
  one, so resolution goes on to the other sources and the result has no path. An
  empty-string content is a content source and yields an attachment with empty content.
  Resolution throws exactly when the path is absent or empty, the content is undefined and
  the stream is absent, and what it throws is the missing-source error.
\<close>

theorem source_guards_asymmetric:
  "processAttachment env (a\<lparr>att_path := Some []\<rparr>) w
     = processAttachment env (a\<lparr>att_path := None\<rparr>) w \<and>
   (\<forall>r. fst (processAttachment env (a\<lparr>att_path := Some []\<rparr>) w) = Inr r \<longrightarrow> pa_path r = None) \<and>
   (att_path a \<in> {None, Some []} \<and> att_content a = Some (StringContent []) \<longrightarrow>
      (\<exists>r. processAttachment env a w = (Inr r, w) \<and> pa_content r = Some (StringContent []) \<and>
           pa_path r = None \<and> pa_raw r = None)) \<and>
   ((\<exists>e. fst (processAttachment env a w) = Inl e) =
      (att_path a \<in> {None, Some []} \<and> att_content a = None \<and> att_stream a = None)) \<and>
   (\<forall>e. fst (processAttachment env a w) = Inl e \<longrightarrow> e = missingSourceError a)"
proof (intro conjI allI impI)
  show "processAttachment env (a\<lparr>att_path := Some []\<rparr>) w
          = processAttachment env (a\<lparr>att_path := None\<rparr>) w"
    by (auto simp: processAttachment_def truthy_def missingSourceError_def Let_def)
next
  fix r assume "fst (processAttachment env (a\<lparr>att_path := Some []\<rparr>) w) = Inr r"
  then show "pa_path r = None"
    by (auto simp: processAttachment_def truthy_def Let_def split: if_splits)
next
  assume h: "att_path a \<in> {None, Some []} \<and> att_content a = Some (StringContent [])"
  then have "\<not> truthy (att_path a)" by (simp add: not_truthy_iff)
  with h show "\<exists>r. processAttachment env a w = (Inr r, w) \<and>
           pa_content r = Some (StringContent []) \<and> pa_path r = None \<and> pa_raw r = None"
    by (simp add: processAttachment_content)
next
  show "(\<exists>e. fst (processAttachment env a w) = Inl e) =
      (att_path a \<in> {None, Some []} \<and> att_content a = None \<and> att_stream a = None)"
    using processAttachment_throws_iff [of env a w] not_truthy_iff [of "att_path a"] by simp
next
  fix e assume "fst (processAttachment env a w) = Inl e"
  then show "e = missingSourceError a" by (rule processAttachment_throws_only)
qed

text \<open>C10 on example attachments with an empty-string content and an empty-string path.\<close>

theorem source_guards_asymmetric_witness:
  "processAttachment demo_env
      (demo_attachment\<lparr>att_content := Some (StringContent []), att_path := Some []\<rparr>) demo_world
     = processAttachment demo_env
      (demo_attachment\<lparr>att_content := Some (StringContent []), att_path := None\<rparr>) demo_world \<and>
   (att_path (demo_attachment\<lparr>att_content := Some (StringContent [])\<rparr>) \<in> {None, Some []} \<and>
    att_content (demo_attachment\<lparr>att_content := Some (StringContent [])\<rparr>)
      = Some (StringContent [])) \<and>
   (\<exists>r. processAttachment demo_env (demo_attachment\<lparr>att_content := Some (StringContent [])\<rparr>)
           demo_world = (Inr r, demo_world) \<and>
        pa_content r = Some (StringContent []) \<and> pa_path r = None \<and> pa_raw r = None) \<and>
   (\<exists>e. fst (processAttachment demo_env (demo_attachment\<lparr>att_path := Some []\<rparr>) demo_world)
           = Inl e)"
proof -
  let ?c = "demo_attachment\<lparr>att_content := Some (StringContent [])\<rparr>"
  let ?p = "demo_attachment\<lparr>att_path := Some []\<rparr>"
  note T = source_guards_asymmetric [where env = demo_env and w = demo_world]
  have h: "att_path ?c \<in> {None, Some []} \<and> att_content ?c = Some (StringContent [])"
    by (simp add: demo_attachment_def)
  have g: "att_path ?p \<in> {None, Some []} \<and> att_content ?p = None \<and> att_stream ?p = None"
    by (simp add: demo_attachment_def)
  note c1 = T [where a = ?c, THEN conjunct1]
  note c3 = T [where a = ?c, THEN conjunct2, THEN conjunct2, THEN conjunct1, THEN mp, OF h]
  note c4 = T [where a = ?p, THEN conjunct2, THEN conjunct2, THEN conjunct2, THEN conjunct1,
               THEN iffD2, OF g]
  show ?thesis
    by (rule conjI [OF c1 conjI [OF h conjI [OF c3 c4]]])
qed

section \<open>Templates: recipient and body\<close>

subsection \<open>Recipient\<close>

lemma templateTask_no_recipient:
  "\<not> truthy_recipient (recipientOr (tpl_to t) d) \<Longrightarrow>
   templateTask env d t w = (Inl (noRecipientError t), w)"
  by (auto simp: templateTask_def split: option.splits)


lemma reasonMessage_JsError: "msg \<noteq> [] \<Longrightarrow> reasonMessage (JsError msg) fallback = msg"
  by (simp add: reasonMessage_def truthy_def nonNull_def)

lemma truthy_recipient_formatTo:
  "truthy_recipient (Some to) \<Longrightarrow>
   (case Some to of Some (Addrs as) \<Rightarrow> join '', '' as
                  | Some (Addr s) \<Rightarrow> (if s \<noteq> [] then s else ''unknown'')
                  | None \<Rightarrow> ''unknown'') = formatTo to"
  by (cases to) auto

lemma falsy_recipient_unknown:
  "\<not> truthy_recipient rc \<Longrightarrow>
   (case rc of Some (Addrs as) \<Rightarrow> join '', '' as
             | Some (Addr s) \<Rightarrow> (if s \<noteq> [] then s else ''unknown'')
             | None \<Rightarrow> ''unknown'') = ''unknown''"
  by (cases rc rule: truthy_recipient.cases) auto

text \<open>
  Claim C4, as stated, fails: the code computes \<^verbatim>\<open>template.to || defaultTo\<close>, not
  \<^verbatim>\<open>template.to ?? defaultTo\<close>. For a template whose \<^verbatim>\<open>to\<close> is the empty string the nullish
  rule keeps the empty string, while the code falls back to the default and sends there.
\<close>

theorem nullish_recipient_counterexample:
  "fst (sendTemplatedEmails demo_env [0]
          [\<lparr> tpl_id = ''email-1'', tpl_subject = ''S'', tpl_html = None, tpl_text = Some ''hi'',
              tpl_to = Some (Addr []), tpl_attachments = [] \<rparr>]
          (Some (Addr ''ops@example.com'')) demo_world)
     = Some [\<lparr> success = True, messageId = Some ''<id@gmail.com>'', error = None,
                res_to = ''ops@example.com'', templateId = ''email-1'' \<rparr>]
   \<and> Spec_recipient (Some (Addr [])) (Some (Addr ''ops@example.com'')) = Some (Addr [])
   \<and> recipientOr (Some (Addr [])) (Some (Addr ''ops@example.com''))
       = Some (Addr ''ops@example.com'')"
  by (simp add: model_defs)

text \<open>
  The \<^verbatim>\<open>to\<close> field of a template's result in terms of \<^verbatim>\<open>template.to || defaultTo\<close>.
\<close>

lemma templated_result_to:
  assumes "{0..<length templates} \<subseteq> set schedule" and "i < length templates"
      and "fst (sendTemplatedEmails env schedule templates defaultTo w) = Some rs"
  shows "(\<not> truthy_recipient (recipientOr (tpl_to (templates ! i)) defaultTo) \<longrightarrow>
            rs ! i = \<lparr> success = False, messageId = None,
                        error = Some (''Template '' @ tpl_id (templates ! i)
                                       @ '' has no recipient specified''),
                        res_to = ''unknown'',
                        templateId = (if tpl_id (templates ! i) = [] then ''unknown''
                                      else tpl_id (templates ! i)) \<rparr>) \<and>
         (recipientOr (tpl_to (templates ! i)) defaultTo = Some to \<and> truthy_recipient (Some to) \<longrightarrow>
            res_to (rs ! i) = formatTo to)"
proof -
  let ?t = "templates ! i"
  let ?wi = "snd (mapAsync (templateTask env defaultTo) (take i templates) w)"
  let ?o = "fst (templateTask env defaultTo ?t ?wi)"
  have nth: "rs ! i = templatedResult templates defaultTo (i, ?o)"
    using sendTemplatedEmails_nth [OF assms(1,2), of env defaultTo w] assms(3) by auto
  show ?thesis
  proof (intro conjI impI)
    assume f: "\<not> truthy_recipient (recipientOr (tpl_to ?t) defaultTo)"
    then have "?o = Inl (noRecipientError ?t)"
      by (simp add: templateTask_no_recipient)
    then show "rs ! i = \<lparr> success = False, messageId = None,
                        error = Some (''Template '' @ tpl_id ?t @ '' has no recipient specified''),
                        res_to = ''unknown'',
                        templateId = (if tpl_id ?t = [] then ''unknown'' else tpl_id ?t) \<rparr>"
      using nth templatedResult_rejected [OF assms(2), of defaultTo "noRecipientError ?t"]
        falsy_recipient_unknown [OF f]
      by (simp add: noRecipientError_def reasonMessage_JsError)
  next
    assume t: "recipientOr (tpl_to ?t) defaultTo = Some to \<and> truthy_recipient (Some to)"
    show "res_to (rs ! i) = formatTo to"
    proof (cases ?o)
      case (Inl reason)
      then show ?thesis
        using nth templatedResult_rejected [OF assms(2), of defaultTo reason] t
          truthy_recipient_formatTo [of to]
        by simp
    next
      case (Inr r)
      then have "rs ! i = r" using nth by (simp add: templatedResult_def)
      then show ?thesis using templateTask_fulfilled [OF Inr] t by auto
    qed
  qed
qed

text \<open>What \<^verbatim>\<open>template.to || defaultTo\<close> yields, by the shape of \<^verbatim>\<open>template.to\<close>.\<close>

lemma recipientOr_own:
  "truthy_recipient (Some r) \<Longrightarrow> recipientOr (Some r) d = Some r"
  by (simp add: recipientOr_def)

lemma recipientOr_default:
  "own \<in> {None, Some (Addr [])} \<Longrightarrow> recipientOr own d = d"
  by (auto simp: recipientOr_def)

text \<open>
  Claim C4, amended. The recipient of a template is \<^verbatim>\<open>template.to || defaultTo\<close>. A template's
  own \<^verbatim>\<open>to\<close> is used when it is a non-empty string or a list (also the empty list); the
  \<^verbatim>\<open>to\<close> field of the template's result, failed or not, is then that string, or the
  addresses of the list joined with \<^verbatim>\<open>", "\<close>. When the template's \<^verbatim>\<open>to\<close> is absent or the
  empty string, the default is used in the same way when it is a non-empty string or a
  list. When the default is absent or the empty string as well, the template's result is
  the failure \<^verbatim>\<open>Template <id> has no recipient specified\<close> with \<^verbatim>\<open>to\<close> \<^verbatim>\<open>"unknown"\<close>.
\<close>

theorem recipient_fallback:
  assumes "{0..<length templates} \<subseteq> set schedule" and "i < length templates"
      and "fst (sendTemplatedEmails env schedule templates defaultTo w) = Some rs"
  shows "(tpl_to (templates ! i) = Some (Addr s) \<and> s \<noteq> [] \<longrightarrow> res_to (rs ! i) = s) \<and>
         (tpl_to (templates ! i) = Some (Addrs as) \<longrightarrow>
            res_to (rs ! i) = (case as of [] \<Rightarrow> []
                               | a # rest \<Rightarrow> a @ concat (map (\<lambda>b. '', '' @ b) rest))) \<and>
         (tpl_to (templates ! i) \<in> {None, Some (Addr [])} \<and> defaultTo = Some (Addr s) \<and> s \<noteq> [] \<longrightarrow>
            res_to (rs ! i) = s) \<and>
         (tpl_to (templates ! i) \<in> {None, Some (Addr [])} \<and> defaultTo = Some (Addrs as) \<longrightarrow>
            res_to (rs ! i) = (case as of [] \<Rightarrow> []
                               | a # rest \<Rightarrow> a @ concat (map (\<lambda>b. '', '' @ b) rest))) \<and>
         (tpl_to (templates ! i) \<in> {None, Some (Addr [])} \<and> defaultTo \<in> {None, Some (Addr [])} \<longrightarrow>
            rs ! i = \<lparr> success = False, messageId = None,
                        error = Some (''Template '' @ tpl_id (templates ! i)
                                       @ '' has no recipient specified''),
                        res_to = ''unknown'',
                        templateId = (if tpl_id (templates ! i) = [] then ''unknown''
                                      else tpl_id (templates ! i)) \<rparr>)"
proof -
  let ?own = "tpl_to (templates ! i)"
  note R = templated_result_to [OF assms]
  have resolved: "res_to (rs ! i) = formatTo r"
    if "recipientOr ?own defaultTo = Some r" and "truthy_recipient (Some r)" for r
    using R [of r] that by blast
  have own_addr: "res_to (rs ! i) = s" if "?own = Some (Addr s) \<and> s \<noteq> []"
    using resolved [of "Addr s"] that by (simp add: recipientOr_own)
  have own_list: "res_to (rs ! i) = (case as of [] \<Rightarrow> []
                               | a # rest \<Rightarrow> a @ concat (map (\<lambda>b. '', '' @ b) rest))"
    if "?own = Some (Addrs as)"
    using resolved [of "Addrs as"] that join_concat [of "'', ''" as]
    by (simp add: recipientOr_own)
  have default_addr: "res_to (rs ! i) = s"
    if "?own \<in> {None, Some (Addr [])} \<and> defaultTo = Some (Addr s) \<and> s \<noteq> []"
    using resolved [of "Addr s"] that recipientOr_default [of ?own defaultTo] by simp
  have default_list: "res_to (rs ! i) = (case as of [] \<Rightarrow> []
                               | a # rest \<Rightarrow> a @ concat (map (\<lambda>b. '', '' @ b) rest))"
    if "?own \<in> {None, Some (Addr [])} \<and> defaultTo = Some (Addrs as)"
    using resolved [of "Addrs as"] that recipientOr_default [of ?own defaultTo]
      join_concat [of "'', ''" as]
    by simp
  have none: "rs ! i = \<lparr> success = False, messageId = None,
                        error = Some (''Template '' @ tpl_id (templates ! i)
                                       @ '' has no recipient specified''),
                        res_to = ''unknown'',
                        templateId = (if tpl_id (templates ! i) = [] then ''unknown''
                                      else tpl_id (templates ! i)) \<rparr>"
    if h: "?own \<in> {None, Some (Addr [])} \<and> defaultTo \<in> {None, Some (Addr [])}"
  proof -
    have "recipientOr ?own defaultTo = defaultTo"
      using h recipientOr_default [of ?own defaultTo] by simp
    moreover have "\<not> truthy_recipient defaultTo" using h by auto
    ultimately show ?thesis using R by simp
  qed
  from own_addr own_list default_addr default_list none show ?thesis by blast
qed

text \<open>
  C4 on the third example template: with \<^verbatim>\<open>to\<close> the empty string and the default
  \<^verbatim>\<open>ops@example.com\<close> it is sent to the default; with no \<^verbatim>\<open>to\<close> and no default it fails
  with \<^verbatim>\<open>to\<close> \<^verbatim>\<open>"unknown"\<close>; with its own list and a default it is sent to its own list.
\<close>

theorem recipient_fallback_witness:
  "((fst (sendTemplatedEmails demo_env [0] [(demo_templates ! 2)\<lparr>tpl_to := Some (Addr [])\<rparr>]
            (Some (Addr ''ops@example.com'')) demo_world)
       = Some [\<lparr> success = True, messageId = Some ''<id@gmail.com>'', error = None,
                  res_to = ''ops@example.com'', templateId = ''email-3'' \<rparr>] \<and>
     tpl_to ([(demo_templates ! 2)\<lparr>tpl_to := Some (Addr [])\<rparr>] ! 0) \<in> {None, Some (Addr [])} \<and>
     Some (Addr ''ops@example.com'') = Some (Addr ''ops@example.com'') \<and>
     ''ops@example.com'' \<noteq> []) \<and>
    res_to ([\<lparr> success = True, messageId = Some ''<id@gmail.com>'', error = None,
               res_to = ''ops@example.com'', templateId = ''email-3'' \<rparr>] ! 0) = ''ops@example.com'') \<and>
   ((fst (sendTemplatedEmails demo_env [0] [(demo_templates ! 2)\<lparr>tpl_to := None\<rparr>] None demo_world)
       = Some [\<lparr> success = False, messageId = None,
                  error = Some ''Template email-3 has no recipient specified'',
                  res_to = ''unknown'', templateId = ''email-3'' \<rparr>] \<and>
     tpl_to ([(demo_templates ! 2)\<lparr>tpl_to := None\<rparr>] ! 0) \<in> {None, Some (Addr [])} \<and>
     (None :: recipient option) \<in> {None, Some (Addr [])}) \<and>
    [\<lparr> success = False, messageId = None,
        error = Some ''Template email-3 has no recipient specified'',
        res_to = ''unknown'', templateId = ''email-3'' \<rparr>] ! 0
      = \<lparr> success = False, messageId = None,
          error = Some (''Template '' @ tpl_id ([(demo_templates ! 2)\<lparr>tpl_to := None\<rparr>] ! 0)
                         @ '' has no recipient specified''),
          res_to = ''unknown'',
          templateId = (if tpl_id ([(demo_templates ! 2)\<lparr>tpl_to := None\<rparr>] ! 0) = []
                        then ''unknown''
                        else tpl_id ([(demo_templates ! 2)\<lparr>tpl_to := None\<rparr>] ! 0)) \<rparr>) \<and>
   ((fst (sendTemplatedEmails demo_env [0] [demo_templates ! 2]
            (Some (Addr ''ops@example.com'')) demo_world)
       = Some [\<lparr> success = True, messageId = Some ''<id@gmail.com>'', error = None,
                  res_to = ''a@x.com, b@x.com'', templateId = ''email-3'' \<rparr>] \<and>
     tpl_to ([demo_templates ! 2] ! 0) = Some (Addrs [''a@x.com'', ''b@x.com''])) \<and>
    res_to ([\<lparr> success = True, messageId = Some ''<id@gmail.com>'', error = None,
               res_to = ''a@x.com, b@x.com'', templateId = ''email-3'' \<rparr>] ! 0)
      = (case [''a@x.com'', ''b@x.com''] of [] \<Rightarrow> []
         | a # rest \<Rightarrow> a @ concat (map (\<lambda>b. '', '' @ b) rest)))"
proof -
  let ?te = "[(demo_templates ! 2)\<lparr>tpl_to := Some (Addr [])\<rparr>]"
  let ?tn = "[(demo_templates ! 2)\<lparr>tpl_to := None\<rparr>]"
  let ?tl = "[demo_templates ! 2]"
  let ?ops = "Some (Addr ''ops@example.com'')"
  let ?ra = "[\<lparr> success = True, messageId = Some ''<id@gmail.com>'', error = None,
                  res_to = ''ops@example.com'', templateId = ''email-3'' \<rparr>]"
  let ?rb = "[\<lparr> success = False, messageId = None,
                  error = Some ''Template email-3 has no recipient specified'',
                  res_to = ''unknown'', templateId = ''email-3'' \<rparr>]"
  let ?rc = "[\<lparr> success = True, messageId = Some ''<id@gmail.com>'', error = None,
                  res_to = ''a@x.com, b@x.com'', templateId = ''email-3'' \<rparr>]"
  have s1: "{0..<length ?te} \<subseteq> set [0]" "{0..<length ?tn} \<subseteq> set [0]"
    "{0..<length ?tl} \<subseteq> set [0]"
    by simp_all
  have l1: "0 < length ?te" "0 < length ?tn" "0 < length ?tl" by simp_all
  have ra: "fst (sendTemplatedEmails demo_env [0] ?te ?ops demo_world) = Some ?ra"
    by (simp add: model_defs)
  have rb: "fst (sendTemplatedEmails demo_env [0] ?tn None demo_world) = Some ?rb"
    by (simp add: model_defs)
  have rc: "fst (sendTemplatedEmails demo_env [0] ?tl ?ops demo_world) = Some ?rc"
    by (simp add: model_defs)
  have ha: "tpl_to (?te ! 0) \<in> {None, Some (Addr [])} \<and> ?ops = Some (Addr ''ops@example.com'') \<and>
            ''ops@example.com'' \<noteq> []"
    by simp
  have hb: "tpl_to (?tn ! 0) \<in> {None, Some (Addr [])} \<and> (None :: recipient option) \<in> {None, Some (Addr [])}"
    by simp
  have hc: "tpl_to (?tl ! 0) = Some (Addrs [''a@x.com'', ''b@x.com''])"
    by (simp add: model_defs)
  note ca = recipient_fallback [OF s1(1) l1(1) ra, THEN conjunct2, THEN conjunct2, THEN conjunct1,
                                THEN mp, OF ha]
  note cb = recipient_fallback [OF s1(2) l1(2) rb, THEN conjunct2, THEN conjunct2, THEN conjunct2,
                                THEN conjunct2, THEN mp, OF hb]
  note cc = recipient_fallback [OF s1(3) l1(3) rc, THEN conjunct2, THEN conjunct1, THEN mp, OF hc]
  show ?thesis
    by (rule conjI [OF conjI [OF conjI [OF ra ha] ca]
               conjI [OF conjI [OF conjI [OF rb hb] cb] conjI [OF conjI [OF rc hc] cc]]])
qed

subsection \<open>Body content\<close>





section \<open>resolveAttachmentPath\<close>

text \<open>A replacement string without a dollar sign stands for itself.\<close>

lemma getSubstitution_no_dollar:
  "CHR ''$'' \<notin> set r \<Longrightarrow> getSubstitution m b a r = r"
  by (induction m b a r rule: getSubstitution.induct) auto

text \<open>A string in which the placeholder does not occur is left as it is.\<close>

lemma replacePlaceholder_no_occurrence:
  "(\<forall>u v. s \<noteq> u @ placeholder @ v) \<Longrightarrow> replacePlaceholder r pre s = s"
proof (induction s arbitrary: pre)
  case Nil
  then show ?case by simp
next
  case (Cons c cs)
  have np: "\<not> prefix placeholder (c # cs)"
  proof
    assume "prefix placeholder (c # cs)"
    then obtain v where "c # cs = placeholder @ v" by (auto simp: prefix_def)
    then have "c # cs = [] @ placeholder @ v" by simp
    with Cons.prems show False by blast
  qed
  have "\<forall>u v. cs \<noteq> u @ placeholder @ v"
  proof (intro allI notI)
    fix u v assume "cs = u @ placeholder @ v"
    then have "c # cs = (c # u) @ placeholder @ v" by simp
    with Cons.prems show False by blast
  qed
  then have "replacePlaceholder r (pre @ [c]) cs = cs" by (rule Cons.IH)
  with np show ?case by simp
qed

text \<open>
  The leftmost occurrence of the placeholder, at the end of \<open>u\<close>, is replaced by the
  expansion of the replacement string, and the scan goes on behind it.
\<close>

lemma replacePlaceholder_at_placeholder:
  "replacePlaceholder r pre (placeholder @ v) =
     getSubstitution placeholder pre v r @ replacePlaceholder r (pre @ placeholder) v"
  by (simp add: placeholder_def)

lemma replacePlaceholder_first_occurrence:
  "(\<forall>k<length u. \<not> prefix placeholder (drop k (u @ placeholder @ v))) \<Longrightarrow>
   replacePlaceholder r pre (u @ placeholder @ v) =
     u @ getSubstitution placeholder (pre @ u) v r
       @ replacePlaceholder r (pre @ u @ placeholder) v"
proof (induction u arbitrary: pre)
  case Nil
  show ?case using replacePlaceholder_at_placeholder [of r pre v] by simp
next
  case (Cons c u)
  have np: "\<not> prefix placeholder (c # u @ placeholder @ v)"
    using Cons.prems [rule_format, of 0] by simp
  have "\<forall>k<length u. \<not> prefix placeholder (drop k (u @ placeholder @ v))"
  proof (intro allI impI)
    fix k assume "k < length u"
    then show "\<not> prefix placeholder (drop k (u @ placeholder @ v))"
      using Cons.prems [rule_format, of "Suc k"] by simp
  qed
  from Cons.IH [OF this, of "pre @ [c]"] np show ?case by simp
qed

text \<open>With no dollar sign in the setting, the first occurrence is replaced by the setting itself.\<close>

lemma replacePlaceholder_literal:
  assumes "CHR ''$'' \<notin> set r"
      and "\<forall>k<length u. \<not> prefix placeholder (drop k (u @ placeholder @ v))"
  shows "replacePlaceholder r pre (u @ placeholder @ v) =
           u @ r @ replacePlaceholder r (pre @ u @ placeholder) v"
  using replacePlaceholder_first_occurrence [OF assms(2), of r pre]
    getSubstitution_no_dollar [OF assms(1)]
  by simp

text \<open>
  After the substitution, a result that begins with \<^verbatim>\<open>./\<close> or \<^verbatim>\<open>../\<close> is resolved against
  the working directory and any other result is returned as it is; the setting is the
  environment variable, or \<^verbatim>\<open>./src\<close> when that is unset or empty.
\<close>

lemma resolveAttachmentPath_relative:
  "resolveAttachmentPath env path =
     (let resolvedPath = replacePlaceholder
            (if ASSETS_DIR env \<in> {None, Some []} then ''./src'' else nonNull (ASSETS_DIR env))
            [] path
      in if prefix ''./'' resolvedPath \<or> prefix ''../'' resolvedPath
         then path_resolve env (cwd env) resolvedPath else resolvedPath)"
  using not_truthy_iff [of "ASSETS_DIR env"]
  by (auto simp: resolveAttachmentPath_def Let_def)

text \<open>An absolute path without placeholder is returned unchanged.\<close>

lemma resolveAttachmentPath_absolute_unchanged:
  assumes "prefix ''/'' path" and "\<forall>u v. path \<noteq> u @ placeholder @ v"
  shows "resolveAttachmentPath env path = path"
proof -
  have "\<not> prefix ''./'' path" "\<not> prefix ''../'' path"
    using assms(1) by (auto simp: prefix_def)
  then show ?thesis
    using replacePlaceholder_no_occurrence [OF assms(2)]
    by (simp add: resolveAttachmentPath_def Let_def)
qed

text \<open>The example of the specification, and the default setting.\<close>

lemma resolveAttachmentPath_examples:
  "resolveAttachmentPath demo_env ''{{assetsDir}}/logo.png'' = ''/tmp/assets/logo.png''"
  "resolveAttachmentPath demo_env ''/tmp/assets/logo.png'' = ''/tmp/assets/logo.png''"
  "resolveAttachmentPath (demo_env\<lparr>ASSETS_DIR := None\<rparr>) ''{{assetsDir}}/a/{{assetsDir}}''
     = ''/app/src/a/src''"
  by (simp_all add: model_defs)

text \<open>
  Claim C6 says that every occurrence of \<^verbatim>\<open>{{assetsDir}}\<close> is replaced with the
  \<^verbatim>\<open>assetsDir\<close> setting. The code passes the setting to \<^verbatim>\<open>String.prototype.replace\<close> as a
  replacement string, in which \<^verbatim>\<open>$$\<close>, \<^verbatim>\<open>$&\<close>, \<^verbatim>\<open>$`\<close> and \<^verbatim>\<open>$'\<close> are patterns: with
  \<^verbatim>\<open>ASSETS_DIR=/srv/$$assets\<close> the path \<^verbatim>\<open>{{assetsDir}}/logo.png\<close> resolves to
  \<^verbatim>\<open>/srv/$assets/logo.png\<close>, which is not the setting followed by \<^verbatim>\<open>/logo.png\<close>. The lemmas
  above show that the claim holds whenever the setting contains no dollar sign.
\<close>

theorem assetsDir_dollar_expansion:
  "resolveAttachmentPath (demo_env\<lparr>ASSETS_DIR := Some ''/srv/$$assets''\<rparr>) ''{{assetsDir}}/logo.png''
     = ''/srv/$assets/logo.png''
   \<and> resolveAttachmentPath (demo_env\<lparr>ASSETS_DIR := Some ''/srv/$$assets''\<rparr>)
         ''{{assetsDir}}/logo.png''
     \<noteq> ''/srv/$$assets'' @ ''/logo.png''"
  by (simp add: model_defs)

end
